theory Spec2Isabelle
  imports Main "HOL-Library.Word" "HOL-Library.Signed_Division"
begin

unbundle bit_operations_syntax

section \<open>Machine integers\<close>

text \<open>
  The firmware targets the ESP8266/ESP32 boards, where \<open>int\<close> has 32 bits. Fields keep
  the width the source declares for them. An arithmetic expression is evaluated on
  mathematical integers, as C does after integer promotion (every such expression of the
  source stays inside 32 bits for operands of the declared widths, except where noted),
  and the conversion back to the declared width is written \<open>of_int\<close>. Unsigned fields are
  read with \<open>uint\<close>, signed ones with \<open>sint\<close>. Division is C's, truncating towards
  zero: \<open>sdiv\<close>.
\<close>

type_synonym uint8_t = "8 word"
type_synonym int8_t = "8 word"
type_synonym uint16_t = "16 word"
type_synonym int16_t = "16 word"
type_synonym uint32_t = "32 word"

section \<open>Config.h\<close>

definition RPM_MIN :: int where "RPM_MIN = 0"
definition RPM_IDLE_MIN :: int where "RPM_IDLE_MIN = 700"
definition RPM_IDLE_MAX :: int where "RPM_IDLE_MAX = 900"
definition RPM_CRUISE :: int where "RPM_CRUISE = 2500"
definition RPM_HIGH_START :: int where "RPM_HIGH_START = 5000"
definition RPM_MAX :: int where "RPM_MAX = 7000"
definition RPM_REDLINE :: int where "RPM_REDLINE = 6800"

definition TEMP_AMBIENT :: int where "TEMP_AMBIENT = 200"
definition TEMP_ENGINE_WARM :: int where "TEMP_ENGINE_WARM = 800"
definition TEMP_ENGINE_HOT :: int where "TEMP_ENGINE_HOT = 950"

definition MAP_ATMOSPHERIC :: int where "MAP_ATMOSPHERIC = 100"
definition MAP_IDLE :: int where "MAP_IDLE = 35"
definition MAP_WOT :: int where "MAP_WOT = 95"
definition BARO_SEALEVEL :: int where "BARO_SEALEVEL = 100"

definition VOLTAGE_NORMAL :: int where "VOLTAGE_NORMAL = 140"

definition AFR_STOICH :: int where "AFR_STOICH = 147"
definition AFR_RICH :: int where "AFR_RICH = 130"
definition AFR_LEAN :: int where "AFR_LEAN = 160"
definition AFR_WOT :: int where "AFR_WOT = 125"

definition TPS_IDLE :: int where "TPS_IDLE = 2"
definition TPS_CRUISE :: int where "TPS_CRUISE = 20"
definition TPS_HALF :: int where "TPS_HALF = 50"
definition TPS_WOT :: int where "TPS_WOT = 100"

definition TIMING_IDLE :: int where "TIMING_IDLE = 15"
definition TIMING_MAX :: int where "TIMING_MAX = 35"

definition PW_MIN :: int where "PW_MIN = 10"
definition PW_MAX :: int where "PW_MAX = 255"

definition UPDATE_INTERVAL_MS :: int where "UPDATE_INTERVAL_MS = 50"
definition STATE_TRANSITION_MS :: int where "STATE_TRANSITION_MS = 5000"

section \<open>EngineStatus.h: the wire record\<close>

text \<open>
  The struct is packed and holds 79 one-byte fields; \<open>canin\<close> is the array of 32 bytes
  at offsets 42 to 73.
\<close>

record EngineStatus =
  response :: uint8_t
  secl :: uint8_t
  status1 :: uint8_t
  engine :: uint8_t
  dwell :: uint8_t
  maplo :: uint8_t
  maphi :: uint8_t
  iat :: uint8_t
  clt :: uint8_t
  batcorrection :: uint8_t
  batteryv :: uint8_t
  o2 :: uint8_t
  egocorrection :: uint8_t
  iatcorrection :: uint8_t
  wue :: uint8_t
  rpmlo :: uint8_t
  rpmhi :: uint8_t
  taeamount :: uint8_t
  gammae :: uint8_t
  ve :: uint8_t
  afrtarget :: uint8_t
  pw1lo :: uint8_t
  pw1hi :: uint8_t
  tpsdot :: uint8_t
  advance :: uint8_t
  tps :: uint8_t
  loopslo :: uint8_t
  loopshi :: uint8_t
  freeramlo :: uint8_t
  freeramhi :: uint8_t
  boosttarget :: uint8_t
  boostduty :: uint8_t
  spark :: uint8_t
  rpmdotlo :: uint8_t
  rpmdothi :: uint8_t
  ethanolpct :: uint8_t
  flexcorrection :: uint8_t
  flexigncorrection :: uint8_t
  idleload :: uint8_t
  testoutputs :: uint8_t
  o2_2 :: uint8_t
  baro :: uint8_t
  canin :: "uint8_t list"
  tpsadc :: uint8_t
  errors :: uint8_t
  unused1 :: uint8_t
  unused2 :: uint8_t
  unused3 :: uint8_t

text \<open>\<open>memset(&status, 0, sizeof(EngineStatus))\<close>.\<close>

definition zero_status :: EngineStatus where
  "zero_status = \<lparr> response = 0, secl = 0, status1 = 0, engine = 0, dwell = 0,
     maplo = 0, maphi = 0, iat = 0, clt = 0, batcorrection = 0, batteryv = 0, o2 = 0,
     egocorrection = 0, iatcorrection = 0, wue = 0, rpmlo = 0, rpmhi = 0, taeamount = 0,
     gammae = 0, ve = 0, afrtarget = 0, pw1lo = 0, pw1hi = 0, tpsdot = 0, advance = 0,
     tps = 0, loopslo = 0, loopshi = 0, freeramlo = 0, freeramhi = 0, boosttarget = 0,
     boostduty = 0, spark = 0, rpmdotlo = 0, rpmdothi = 0, ethanolpct = 0,
     flexcorrection = 0, flexigncorrection = 0, idleload = 0, testoutputs = 0, o2_2 = 0,
     baro = 0, canin = replicate 32 0, tpsadc = 0, errors = 0, unused1 = 0, unused2 = 0,
     unused3 = 0 \<rparr>"

text \<open>
  The bytes of the struct in memory order, which is what
  \<open>(const uint8_t*)&status\<close> with \<open>sizeof(EngineStatus)\<close> sends.
\<close>

definition raw_bytes :: "EngineStatus \<Rightarrow> uint8_t list" where
  "raw_bytes st =
     [response st, secl st, status1 st, engine st, dwell st, maplo st, maphi st, iat st,
      clt st, batcorrection st, batteryv st, o2 st, egocorrection st, iatcorrection st,
      wue st, rpmlo st, rpmhi st, taeamount st, gammae st, ve st, afrtarget st, pw1lo st,
      pw1hi st, tpsdot st, advance st, tps st, loopslo st, loopshi st, freeramlo st,
      freeramhi st, boosttarget st, boostduty st, spark st, rpmdotlo st, rpmdothi st,
      ethanolpct st, flexcorrection st, flexigncorrection st, idleload st, testoutputs st,
      o2_2 st, baro st]
     @ canin st
     @ [tpsadc st, errors st, unused1 st, unused2 st, unused3 st]"

subsection \<open>Accessors\<close>

definition setRPM :: "uint16_t \<Rightarrow> EngineStatus \<Rightarrow> EngineStatus" where
  "setRPM rpm st = st\<lparr> rpmlo := of_int (uint rpm AND 255),
                        rpmhi := of_int (drop_bit 8 (uint rpm) AND 255) \<rparr>"

definition getRPM :: "EngineStatus \<Rightarrow> uint16_t" where
  "getRPM st = of_int (push_bit 8 (uint (rpmhi st)) OR uint (rpmlo st))"

definition setMAP :: "uint16_t \<Rightarrow> EngineStatus \<Rightarrow> EngineStatus" where
  "setMAP m st = st\<lparr> maplo := of_int (uint m AND 255),
                      maphi := of_int (drop_bit 8 (uint m) AND 255) \<rparr>"

definition getMAP :: "EngineStatus \<Rightarrow> uint16_t" where
  "getMAP st = of_int (push_bit 8 (uint (maphi st)) OR uint (maplo st))"

definition setPulseWidth :: "uint16_t \<Rightarrow> EngineStatus \<Rightarrow> EngineStatus" where
  "setPulseWidth pw st = st\<lparr> pw1lo := of_int (uint pw AND 255),
                              pw1hi := of_int (drop_bit 8 (uint pw) AND 255) \<rparr>"

definition getPulseWidth :: "EngineStatus \<Rightarrow> uint16_t" where
  "getPulseWidth st = of_int (push_bit 8 (uint (pw1hi st)) OR uint (pw1lo st))"

text \<open>
  The RPM rate is an \<open>int16_t\<close>: it is promoted with its sign, and \<open>>>\<close> on the
  promoted value is the arithmetic shift (\<open>drop_bit\<close> on \<open>int\<close>).
\<close>

definition setRPMDot :: "int16_t \<Rightarrow> EngineStatus \<Rightarrow> EngineStatus" where
  "setRPMDot rpmdot st = st\<lparr> rpmdotlo := of_int (sint rpmdot AND 255),
                              rpmdothi := of_int (drop_bit 8 (sint rpmdot) AND 255) \<rparr>"

definition getRPMDot :: "EngineStatus \<Rightarrow> int16_t" where
  "getRPMDot st = of_int (push_bit 8 (uint (rpmdothi st)) OR uint (rpmdotlo st))"

text \<open>
  The temperature accessors take and return an \<open>int8_t\<close>; a caller's \<open>int\<close> argument
  is converted to it at the call.
\<close>

definition setCoolantTemp :: "int8_t \<Rightarrow> EngineStatus \<Rightarrow> EngineStatus" where
  "setCoolantTemp celsius st = st\<lparr> clt := of_int (sint celsius + 40) \<rparr>"

definition getCoolantTemp :: "EngineStatus \<Rightarrow> int8_t" where
  "getCoolantTemp st = of_int (sint (clt st) - 40)"

definition setIntakeTemp :: "int8_t \<Rightarrow> EngineStatus \<Rightarrow> EngineStatus" where
  "setIntakeTemp celsius st = st\<lparr> iat := of_int (sint celsius + 40) \<rparr>"

definition getIntakeTemp :: "EngineStatus \<Rightarrow> int8_t" where
  "getIntakeTemp st = of_int (sint (iat st) - 40)"

section \<open>The injected collaborators\<close>

text \<open>
  \<open>ITimeProvider\<close> and \<open>IRandomProvider\<close> are interfaces whose implementations are
  outside the simulator. The environment holds what they will answer: \<open>clock e k\<close> is
  the answer to the \<open>k\<close>-th call of \<open>millis()\<close>, and \<open>rng e k\<close> the raw value behind
  the \<open>k\<close>-th draw. \<open>IRandomProvider::random(min, max)\<close> is documented to return a
  number in \<open>[min, max)\<close>; every such answer, and no other, is \<open>min + r mod (max - min)\<close>
  for some raw \<open>r\<close>. \<open>random(max)\<close> is documented as the range \<open>[0, max)\<close>.
\<close>

record env =
  clock :: "nat \<Rightarrow> uint32_t"
  reads :: nat
  rng :: "nat \<Rightarrow> int"
  draws :: nat

definition millis :: "env \<Rightarrow> uint32_t \<times> env" where
  "millis e = (clock e (reads e), e\<lparr> reads := Suc (reads e) \<rparr>)"

definition random_range :: "int \<Rightarrow> int \<Rightarrow> env \<Rightarrow> int \<times> env" where
  "random_range lo hi e = (lo + rng e (draws e) mod (hi - lo), e\<lparr> draws := Suc (draws e) \<rparr>)"

definition random_upto :: "int \<Rightarrow> env \<Rightarrow> int \<times> env" where
  "random_upto hi e = random_range 0 hi e"

section \<open>EngineSimulator.h: the simulation state\<close>

datatype EngineMode =
  STARTUP | WARMUP_IDLE | IDLE | LIGHT_LOAD | ACCELERATION | HIGH_RPM | DECELERATION | WOT

text \<open>
  The members of the class, followed by the two function-local \<open>static\<close> variables
  (\<open>lastTPS\<close> of \<open>simulateThrottle\<close>, \<open>egoTrend\<close> of \<open>simulateCorrections\<close>), which
  live as long as the program.
\<close>

record EngineSimulator =
  status :: EngineStatus
  currentMode :: EngineMode
  lastUpdateTime :: uint32_t
  stateStartTime :: uint32_t
  engineStartTime :: uint32_t
  targetRPM :: uint16_t
  currentRPM :: uint16_t
  rpmAcceleration :: int16_t
  targetThrottle :: uint8_t
  currentThrottle :: uint8_t
  coolantTemp :: int16_t
  intakeTemp :: int16_t
  exhaustTemp :: int16_t
  pulseWidth :: uint16_t
  injectorDutyCycle :: uint8_t
  loopCounter :: uint32_t
  secondCounter :: uint16_t
  lastTPS :: uint8_t
  egoTrend :: int8_t

text \<open>
  The constructor's member initialisers, with the statics at their initial values. The
  status member has no initialiser; \<open>initialize\<close> overwrites all of it, and it is taken
  to be zero before. The constructor also seeds the random provider, which is the
  environment's business.
\<close>

definition constructed :: EngineSimulator where
  "constructed = \<lparr> status = zero_status, currentMode = STARTUP, lastUpdateTime = 0,
     stateStartTime = 0, engineStartTime = 0, targetRPM = 0, currentRPM = 0,
     rpmAcceleration = 0, targetThrottle = 0, currentThrottle = 0,
     coolantTemp = of_int TEMP_AMBIENT, intakeTemp = of_int TEMP_AMBIENT,
     exhaustTemp = of_int TEMP_AMBIENT, pulseWidth = 0, injectorDutyCycle = 0,
     loopCounter = 0, secondCounter = 0, lastTPS = 0, egoTrend = 1 \<rparr>"

section \<open>EngineSimulator.cpp\<close>

subsection \<open>Helper functions\<close>

definition calculateVE :: "uint16_t \<Rightarrow> uint8_t \<Rightarrow> uint8_t" where
  "calculateVE rpm tps' =
     (let baseVE :: uint8_t =
            (if uint rpm < 1000 then 45
             else if uint rpm < 2000 then of_int (55 + (uint rpm - 1000) sdiv 50)
             else if uint rpm < 4000 then of_int (75 + (uint rpm - 2000) sdiv 100)
             else if uint rpm < 5500 then of_int (85 + (uint rpm - 4000) sdiv 200)
             else of_int (90 - (uint rpm - 5500) sdiv 100));
          baseVE :: uint8_t = of_int ((uint baseVE * (50 + uint tps' sdiv 2)) sdiv 100);
          baseVE = (if uint baseVE > 100 then 100 else baseVE);
          baseVE = (if uint baseVE < 30 then 30 else baseVE)
      in baseVE)"

definition calculateIgnitionAdvance :: "uint16_t \<Rightarrow> uint8_t \<Rightarrow> uint8_t" where
  "calculateIgnitionAdvance rpm load =
     (let baseAdvance :: uint8_t = of_int TIMING_IDLE;
          baseAdvance :: uint8_t =
            (if uint rpm > 1000 then of_int (uint baseAdvance + (uint rpm - 1000) sdiv 200)
             else baseAdvance);
          baseAdvance :: uint8_t =
            (if uint load > 80 then of_int (uint baseAdvance - (uint load - 80) sdiv 4)
             else if uint load < 40 then of_int (uint baseAdvance + (40 - uint load) sdiv 8)
             else baseAdvance);
          baseAdvance = (if uint baseAdvance > TIMING_MAX then of_int TIMING_MAX else baseAdvance);
          baseAdvance = (if uint baseAdvance < 5 then 5 else baseAdvance)
      in baseAdvance)"

text \<open>
  \<open>pw\<close> is a \<open>uint32_t\<close>: the product wraps at 32 bits, and the divisions are unsigned
  (\<open>rpm + 1\<close> is at least 1 and at most 65536).
\<close>

definition calculateRequiredPulseWidth :: "uint16_t \<Rightarrow> uint16_t \<Rightarrow> uint8_t \<Rightarrow> uint16_t" where
  "calculateRequiredPulseWidth rpm m ve' =
     (let pw = (uint m * uint ve' * 1000) mod 2 ^ 32;
          pw = pw div (uint rpm + 1);
          pw = pw div 10;
          pw = (if pw < PW_MIN then PW_MIN else pw);
          pw = (if pw > PW_MAX then PW_MAX else pw)
      in of_int pw)"

definition getWarmupEnrichment :: "int16_t \<Rightarrow> uint8_t" where
  "getWarmupEnrichment coolantTemp' =
     (let tempC :: int16_t = of_int (sint coolantTemp' sdiv 10)
      in if sint tempC < 0 then 140
         else if sint tempC < 20 then 130
         else if sint tempC < 40 then 120
         else if sint tempC < 60 then 110
         else 100)"

text \<open>\<open>SENSOR_NOISE_ENABLED\<close> is 1 (\<open>MINIMAL_FEATURES\<close> is not defined for this board).\<close>

definition addNoise :: "int8_t \<Rightarrow> int8_t \<Rightarrow> env \<Rightarrow> int8_t \<times> env" where
  "addNoise v range' e =
     (case random_range (- sint range') (sint range' + 1) e of
        (r, e') \<Rightarrow> (of_int (sint v + r), e'))"

definition interpolate :: "int16_t \<Rightarrow> int16_t \<Rightarrow> uint8_t \<Rightarrow> int16_t" where
  "interpolate current target rate =
     (let delta :: int16_t = of_int (sint target - sint current);
          maxChange :: int16_t = of_int ((sint delta * uint rate) sdiv 100);
          maxChange :: int16_t =
            (if sint maxChange = 0 \<and> sint delta \<noteq> 0
             then (if sint delta > 0 then 1 else -1) else maxChange)
      in of_int (sint current + sint maxChange))"

text \<open>
  The operands are promoted to \<open>int\<close>; at both call sites the bounds are constants and
  \<open>x\<close> is below 256, so the product stays inside 32 bits and the divisor is not zero.
\<close>

definition mapValue :: "uint16_t \<Rightarrow> uint16_t \<Rightarrow> uint16_t \<Rightarrow> uint16_t \<Rightarrow> uint16_t \<Rightarrow> uint16_t" where
  "mapValue x in_min in_max out_min out_max =
     of_int (((uint x - uint in_min) * (uint out_max - uint out_min))
               sdiv (uint in_max - uint in_min) + uint out_min)"

subsection \<open>initialize\<close>

definition initialize :: "EngineSimulator \<Rightarrow> env \<Rightarrow> EngineSimulator \<times> env" where
  "initialize s e =
     (case millis e of (now, e) \<Rightarrow>
        let s = s\<lparr> status := zero_status\<lparr> response := 0x41 \<rparr>,
                   currentMode := STARTUP,
                   engineStartTime := now, lastUpdateTime := now, stateStartTime := now,
                   currentRPM := 0, targetRPM := of_int (RPM_IDLE_MIN + 200),
                   coolantTemp := of_int TEMP_AMBIENT, intakeTemp := of_int TEMP_AMBIENT,
                   exhaustTemp := of_int TEMP_AMBIENT,
                   currentThrottle := of_int TPS_IDLE, targetThrottle := of_int TPS_IDLE \<rparr>;
            st = setRPM (currentRPM s) (status s);
            st = setCoolantTemp (of_int (sint (coolantTemp s) sdiv 10)) st;
            st = setIntakeTemp (of_int (sint (intakeTemp s) sdiv 10)) st;
            st = setMAP (of_int MAP_ATMOSPHERIC) st;
            st = st\<lparr> batteryv := of_int (VOLTAGE_NORMAL sdiv 10), baro := of_int BARO_SEALEVEL,
                     tps := currentThrottle s \<rparr>
        in (s\<lparr> status := st, loopCounter := 0, secondCounter := 0 \<rparr>, e))"

subsection \<open>The state machine\<close>

definition transitionToMode :: "EngineMode \<Rightarrow> EngineSimulator \<Rightarrow> env \<Rightarrow> EngineSimulator \<times> env" where
  "transitionToMode newMode s e =
     (case millis e of (now, e) \<Rightarrow>
        let s = s\<lparr> currentMode := newMode, stateStartTime := now \<rparr> in
        case newMode of
          STARTUP \<Rightarrow>
            (s\<lparr> targetRPM := of_int (RPM_IDLE_MIN + 200), targetThrottle := of_int (TPS_IDLE + 5),
                rpmAcceleration := 500 \<rparr>, e)
        | WARMUP_IDLE \<Rightarrow>
            (s\<lparr> targetRPM := of_int (RPM_IDLE_MIN + 150), targetThrottle := of_int (TPS_IDLE + 3),
                rpmAcceleration := 100 \<rparr>, e)
        | IDLE \<Rightarrow>
            (case random_range (-50) 50 e of (r, e) \<Rightarrow>
               (s\<lparr> targetRPM := of_int (RPM_IDLE_MIN + r), targetThrottle := of_int TPS_IDLE,
                   rpmAcceleration := 50 \<rparr>, e))
        | LIGHT_LOAD \<Rightarrow>
            (case random_range (-300) 300 e of (r1, e) \<Rightarrow>
             case random_range (-5) 10 e of (r2, e) \<Rightarrow>
               (s\<lparr> targetRPM := of_int (RPM_CRUISE + r1), targetThrottle := of_int (TPS_CRUISE + r2),
                   rpmAcceleration := 200 \<rparr>, e))
        | ACCELERATION \<Rightarrow>
            (case random_range (-500) 500 e of (r1, e) \<Rightarrow>
             case random_range 10 40 e of (r2, e) \<Rightarrow>
               (s\<lparr> targetRPM := of_int (RPM_HIGH_START + r1), targetThrottle := of_int (TPS_HALF + r2),
                   rpmAcceleration := 1000 \<rparr>, e))
        | HIGH_RPM \<Rightarrow>
            (case random_range 100 500 e of (r1, e) \<Rightarrow>
             case random_range 0 20 e of (r2, e) \<Rightarrow>
               (s\<lparr> targetRPM := of_int (RPM_REDLINE - r1), targetThrottle := of_int (TPS_WOT - r2),
                   rpmAcceleration := 500 \<rparr>, e))
        | DECELERATION \<Rightarrow>
            (case random_range 0 500 e of (r, e) \<Rightarrow>
               (s\<lparr> targetRPM := of_int (RPM_IDLE_MAX + r), targetThrottle := of_int TPS_IDLE,
                   rpmAcceleration := of_int (- 800) \<rparr>, e))
        | WOT \<Rightarrow>
            (s\<lparr> targetRPM := of_int RPM_REDLINE, targetThrottle := of_int TPS_WOT,
                rpmAcceleration := 1500 \<rparr>, e))"

definition updateStateMachine :: "EngineSimulator \<Rightarrow> env \<Rightarrow> EngineSimulator \<times> env" where
  "updateStateMachine s e =
     (case millis e of (now, e) \<Rightarrow>
        let timeInState :: uint32_t = now - stateStartTime s in
        case currentMode s of
          STARTUP \<Rightarrow>
            if uint timeInState > 1000
            then (if uint (currentRPM s) > RPM_IDLE_MIN sdiv 2
                  then transitionToMode WARMUP_IDLE s e else (s, e))
            else (s, e)
        | WARMUP_IDLE \<Rightarrow>
            if sint (coolantTemp s) > 600 then transitionToMode IDLE s e else (s, e)
        | IDLE \<Rightarrow>
            if uint timeInState > STATE_TRANSITION_MS
            then (case random_upto 100 e of (rand, e) \<Rightarrow>
                    if rand < 30 then transitionToMode LIGHT_LOAD s e
                    else if rand < 35 then transitionToMode ACCELERATION s e
                    else (s, e))
            else (s, e)
        | LIGHT_LOAD \<Rightarrow>
            if uint timeInState > STATE_TRANSITION_MS
            then (case random_upto 100 e of (rand, e) \<Rightarrow>
                    if rand < 40 then transitionToMode ACCELERATION s e
                    else if rand < 70 then transitionToMode DECELERATION s e
                    else transitionToMode IDLE s e)
            else (s, e)
        | ACCELERATION \<Rightarrow>
            if uint (currentRPM s) > RPM_HIGH_START then transitionToMode HIGH_RPM s e
            else if uint timeInState > 3000
            then (case random_upto 100 e of (rand, e) \<Rightarrow>
                    if rand < 30 then transitionToMode LIGHT_LOAD s e else (s, e))
            else (s, e)
        | HIGH_RPM \<Rightarrow>
            if uint timeInState > 2000 then transitionToMode DECELERATION s e else (s, e)
        | DECELERATION \<Rightarrow>
            if uint (currentRPM s) < RPM_IDLE_MAX + 200 then transitionToMode IDLE s e else (s, e)
        | WOT \<Rightarrow>
            if uint timeInState > 3000 \<or> uint (currentRPM s) > RPM_REDLINE
            then transitionToMode HIGH_RPM s e else (s, e))"

definition setMode :: "EngineMode \<Rightarrow> EngineSimulator \<Rightarrow> env \<Rightarrow> EngineSimulator \<times> env" where
  "setMode mode s e = transitionToMode mode s e"

subsection \<open>The physics stages\<close>

definition simulateRPM :: "EngineSimulator \<Rightarrow> env \<Rightarrow> EngineSimulator \<times> env" where
  "simulateRPM s e =
     (let s = (if uint (currentRPM s) < uint (targetRPM s) then
                 let delta :: int16_t =
                       of_int ((sint (rpmAcceleration s) * UPDATE_INTERVAL_MS) sdiv 1000);
                     s = s\<lparr> currentRPM := of_int (uint (currentRPM s) + sint delta) \<rparr>
                 in if uint (currentRPM s) > uint (targetRPM s)
                    then s\<lparr> currentRPM := targetRPM s \<rparr> else s
               else if uint (currentRPM s) > uint (targetRPM s) then
                 let delta :: int16_t =
                       of_int ((sint (rpmAcceleration s) * UPDATE_INTERVAL_MS) sdiv 1000);
                     s = s\<lparr> currentRPM := of_int (uint (currentRPM s) + sint delta) \<rparr>
                 in if uint (currentRPM s) < uint (targetRPM s)
                    then s\<lparr> currentRPM := targetRPM s \<rparr> else s
               else s);
          s = (if sint (currentRPM s) < RPM_MIN then s\<lparr> currentRPM := of_int RPM_MIN \<rparr> else s);
          s = (if uint (currentRPM s) > RPM_MAX then s\<lparr> currentRPM := of_int RPM_MAX \<rparr> else s)
      in case (if currentMode s = IDLE \<or> currentMode s = WARMUP_IDLE
               then (case random_range (-10) 10 e of (r, e) \<Rightarrow>
                       (s\<lparr> currentRPM := of_int (uint (currentRPM s) + r) \<rparr>, e))
               else (s, e)) of
           (s, e) \<Rightarrow>
             (s\<lparr> status := setRPMDot (rpmAcceleration s) (setRPM (currentRPM s) (status s)) \<rparr>, e))"

definition simulateThermal :: "EngineSimulator \<Rightarrow> EngineSimulator" where
  "simulateThermal s =
     (let targetCoolantTemp :: int16_t =
            (if currentMode s = WOT \<or> currentMode s = HIGH_RPM then of_int TEMP_ENGINE_HOT
             else if currentMode s = IDLE \<or> currentMode s = WARMUP_IDLE
             then of_int (TEMP_ENGINE_WARM - 50)
             else of_int TEMP_ENGINE_WARM);
          s = s\<lparr> coolantTemp := interpolate (coolantTemp s) targetCoolantTemp 5 \<rparr>;
          s = s\<lparr> status := setCoolantTemp (of_int (sint (coolantTemp s) sdiv 10)) (status s) \<rparr>;
          targetIntakeTemp :: int16_t =
            of_int (TEMP_AMBIENT + (sint (coolantTemp s) - TEMP_AMBIENT) sdiv 4);
          targetIntakeTemp :: int16_t =
            (if uint (currentRPM s) > RPM_CRUISE
             then of_int (sint targetIntakeTemp - (uint (currentRPM s) - RPM_CRUISE) sdiv 50)
             else targetIntakeTemp);
          s = s\<lparr> intakeTemp := interpolate (intakeTemp s) targetIntakeTemp 10 \<rparr>
      in s\<lparr> status := setIntakeTemp (of_int (sint (intakeTemp s) sdiv 10)) (status s) \<rparr>)"

text \<open>
  \<open>interpolate\<close> takes and returns \<open>int16_t\<close>; the throttle is a \<open>uint8_t\<close>, converted
  at the call and at the assignment.
\<close>

definition simulateThrottle :: "EngineSimulator \<Rightarrow> env \<Rightarrow> EngineSimulator \<times> env" where
  "simulateThrottle s e =
     (let s = s\<lparr> currentThrottle :=
                  of_int (sint (interpolate (of_int (uint (currentThrottle s)))
                                            (of_int (uint (targetThrottle s))) 20)) \<rparr>
      in case addNoise 0 1 e of (n, e) \<Rightarrow>
           let noisyThrottle :: int8_t = of_int (uint (currentThrottle s) + sint n);
               noisyThrottle = (if sint noisyThrottle < 0 then 0 else noisyThrottle);
               noisyThrottle = (if sint noisyThrottle > 100 then 100 else noisyThrottle);
               st = (status s)\<lparr> tps := of_int (sint noisyThrottle),
                                 tpsadc := of_int ((sint noisyThrottle * 255) sdiv 100) \<rparr>;
               tpsDelta :: int16_t = of_int (uint (tps st) - uint (lastTPS s));
               st = st\<lparr> tpsdot := of_int (sint tpsDelta * (1000 sdiv UPDATE_INTERVAL_MS)) \<rparr>
           in (s\<lparr> status := st, lastTPS := tps st \<rparr>, e))"

definition simulateMAP :: "EngineSimulator \<Rightarrow> env \<Rightarrow> EngineSimulator \<times> env" where
  "simulateMAP s e =
     (let baseMAP :: uint16_t =
            (if uint (currentThrottle s) < 10
             then of_int (MAP_IDLE + (uint (currentRPM s) - RPM_IDLE_MIN) sdiv 20)
             else if uint (currentThrottle s) > 80
             then of_int (MAP_WOT - (RPM_MAX - uint (currentRPM s)) sdiv 100)
             else mapValue (of_int (uint (currentThrottle s))) 10 80
                    (of_int (MAP_IDLE + 10)) (of_int (MAP_WOT - 5)));
          baseMAP :: uint16_t =
            (if uint (currentRPM s) > RPM_HIGH_START
             then of_int (uint baseMAP + (uint (currentRPM s) - RPM_HIGH_START) sdiv 100)
             else baseMAP)
      in case addNoise 0 2 e of (n, e) \<Rightarrow>
           let noisyMAP :: uint16_t = of_int (uint baseMAP + sint n);
               noisyMAP = (if uint noisyMAP > MAP_ATMOSPHERIC then of_int MAP_ATMOSPHERIC
                           else noisyMAP)
           in (s\<lparr> status := setMAP noisyMAP (status s) \<rparr>, e))"

definition simulateFuel :: "EngineSimulator \<Rightarrow> EngineSimulator" where
  "simulateFuel s =
     (let s = s\<lparr> status := (status s)\<lparr> ve := calculateVE (currentRPM s) (currentThrottle s) \<rparr> \<rparr>;
          m = getMAP (status s);
          s = s\<lparr> pulseWidth := calculateRequiredPulseWidth (currentRPM s) m (ve (status s)) \<rparr>;
          wue' = getWarmupEnrichment (coolantTemp s);
          s = s\<lparr> pulseWidth := of_int ((uint (pulseWidth s) * uint wue') sdiv 100) \<rparr>;
          s = s\<lparr> status := (status s)\<lparr> wue := wue' \<rparr> \<rparr>;
          correctedPW :: uint16_t =
            of_int ((uint (pulseWidth s) * uint (egocorrection (status s))) sdiv 100);
          correctedPW :: uint16_t =
            of_int ((uint correctedPW * uint (iatcorrection (status s))) sdiv 100);
          correctedPW = (if uint correctedPW < PW_MIN then of_int PW_MIN else correctedPW);
          correctedPW = (if uint correctedPW > PW_MAX then of_int PW_MAX else correctedPW);
          st = setPulseWidth correctedPW (status s);
          st = (if uint (tpsdot st) > 10
                then st\<lparr> taeamount := of_int (100 + uint (tpsdot st) sdiv 2) \<rparr>
                else st\<lparr> taeamount := 100 \<rparr>);
          st = st\<lparr> gammae := of_int ((uint (egocorrection st) * uint (iatcorrection st)
                                         * uint (wue st)) sdiv 10000) \<rparr>
      in s\<lparr> status := st \<rparr>)"

definition simulateIgnition :: "EngineSimulator \<Rightarrow> EngineSimulator" where
  "simulateIgnition s =
     (let load :: uint8_t = of_int ((uint (getMAP (status s)) * 100) sdiv MAP_ATMOSPHERIC);
          st = (status s)\<lparr> advance := calculateIgnitionAdvance (currentRPM s) load \<rparr>;
          baseDwell :: uint16_t = (if uint (batteryv st) < 12 then 45 else 35)
      in s\<lparr> status := st\<lparr> dwell := of_int (uint baseDwell), spark := 0x01 \<rparr> \<rparr>)"

definition simulateAFR :: "EngineSimulator \<Rightarrow> env \<Rightarrow> EngineSimulator \<times> env" where
  "simulateAFR s e =
     (let targetAFR :: uint8_t =
            (case currentMode s of
               STARTUP \<Rightarrow> of_int AFR_RICH
             | WARMUP_IDLE \<Rightarrow> of_int AFR_RICH
             | WOT \<Rightarrow> of_int AFR_WOT
             | ACCELERATION \<Rightarrow> of_int AFR_WOT
             | DECELERATION \<Rightarrow> of_int AFR_LEAN
             | _ \<Rightarrow> of_int AFR_STOICH);
          st = (status s)\<lparr> afrtarget := targetAFR \<rparr>;
          lambda :: uint16_t = of_int ((uint targetAFR * 100) sdiv 147);
          st = st\<lparr> o2 := of_int (uint (mapValue lambda 50 150 0 255)) \<rparr>
      in case addNoise 0 3 e of (n1, e) \<Rightarrow>
           let st = st\<lparr> o2_2 := of_int (uint (o2 st) + sint n1) \<rparr>
           in case addNoise 0 5 e of (n2, e) \<Rightarrow>
                (s\<lparr> status := st\<lparr> o2 := of_int (uint (o2 st) + sint n2) \<rparr> \<rparr>, e))"

definition simulateCorrections :: "EngineSimulator \<Rightarrow> env \<Rightarrow> EngineSimulator \<times> env" where
  "simulateCorrections s e =
     (let s = (if sint (coolantTemp s) > 500 \<and> currentMode s \<noteq> WOT then
                 let s = s\<lparr> status := (status s)\<lparr> egocorrection :=
                              of_int (uint (egocorrection (status s)) + sint (egoTrend s)) \<rparr> \<rparr>;
                     s = (if uint (egocorrection (status s)) > 110
                          then s\<lparr> egoTrend := of_int (- 1) \<rparr> else s);
                     s = (if uint (egocorrection (status s)) < 90
                          then s\<lparr> egoTrend := 1 \<rparr> else s)
                 in s
               else s\<lparr> status := (status s)\<lparr> egocorrection := 100 \<rparr> \<rparr>);
          iatCelsius :: int16_t = of_int (sint (intakeTemp s) sdiv 10);
          st = status s;
          st = (if sint iatCelsius < 0 then st\<lparr> iatcorrection := 110 \<rparr>
                else if sint iatCelsius < 10 then st\<lparr> iatcorrection := 105 \<rparr>
                else st\<lparr> iatcorrection := 100 \<rparr>);
          st = (if uint (batteryv st) < 12 then st\<lparr> batcorrection := 105 \<rparr>
                else st\<lparr> batcorrection := 100 \<rparr>);
          st = st\<lparr> ethanolpct := 0, flexcorrection := 100, flexigncorrection := 0 \<rparr>
      in case (if currentMode s = IDLE
               then (case random_range (-5) 5 e of (r, e) \<Rightarrow> (of_int (30 + r), e))
               else (0, e)) of
           (il, e) \<Rightarrow>
             (s\<lparr> status := st\<lparr> idleload := il, boosttarget := 0, boostduty := 0 \<rparr> \<rparr>, e))"

definition simulateSensors :: "EngineSimulator \<Rightarrow> EngineSimulator" where
  "simulateSensors s =
     (let st = (status s)\<lparr> status1 := 0x00 \<rparr>;
          st = (if uint (currentRPM s) > 0 then st\<lparr> status1 := status1 st OR 0x01 \<rparr> else st);
          st = (if sint (coolantTemp s) > 500 then st\<lparr> status1 := status1 st OR 0x02 \<rparr> else st);
          st = st\<lparr> engine := 0x00 \<rparr>;
          st = (if currentMode s = STARTUP then st\<lparr> engine := engine st OR 0x01 \<rparr> else st);
          st = (if uint (currentRPM s) > 0 then st\<lparr> engine := engine st OR 0x02 \<rparr> else st)
      in s\<lparr> status := st\<lparr> testoutputs := 0x00 \<rparr> \<rparr>)"

definition simulateVoltage :: "EngineSimulator \<Rightarrow> env \<Rightarrow> EngineSimulator \<times> env" where
  "simulateVoltage s e =
     (let baseVoltage :: uint8_t = of_int (VOLTAGE_NORMAL sdiv 10);
          baseVoltage :: uint8_t =
            (if currentMode s = STARTUP then 10
             else if uint (currentRPM s) > RPM_CRUISE then 14
             else baseVoltage)
      in case addNoise 0 1 e of (n, e) \<Rightarrow>
           (s\<lparr> status := (status s)\<lparr> batteryv := of_int (uint baseVoltage + sint n) \<rparr> \<rparr>, e))"

text \<open>
  The array always has its 32 elements, so every index written below is in range. In the
  loop \<open>i * 7 + loopCounter\<close> is a \<open>uint32_t\<close> sum.
\<close>

definition simulateCANData :: "EngineSimulator \<Rightarrow> EngineSimulator" where
  "simulateCANData s =
     (let c = canin (status s);
          c = c[0 := of_int (drop_bit 8 (uint (currentRPM s)) AND 255)];
          c = c[1 := of_int (uint (currentRPM s) AND 255)];
          speed :: uint16_t = of_int (uint (currentRPM s) sdiv 100);
          speed = (if uint speed > 255 then 255 else speed);
          c = c[2 := of_int (uint speed AND 255)];
          c = c[3 := 0];
          c = c[4 := clt (status s)];
          c = c[5 := 0];
          c = c[6 := tps (status s)];
          c = c[7 := 0];
          c = fold (\<lambda>i c. c[i := of_int (((int i * 7 + uint (loopCounter s)) mod 2 ^ 32) AND 255)])
                   [8 ..< 32] c
      in s\<lparr> status := (status s)\<lparr> canin := c \<rparr> \<rparr>)"

subsection \<open>update\<close>

text \<open>
  The stages after the time gate, in the order of the source. \<open>ARDUINO_AVR\<close> is not
  defined for this board, so the free RAM reported is 8192.
\<close>

definition update :: "EngineSimulator \<Rightarrow> env \<Rightarrow> bool \<times> EngineSimulator \<times> env" where
  "update s e =
     (case millis e of (currentTime, e) \<Rightarrow>
        let deltaTime :: uint32_t = currentTime - lastUpdateTime s in
        if uint deltaTime < UPDATE_INTERVAL_MS then (False, s, e)
        else
          let s = s\<lparr> lastUpdateTime := currentTime \<rparr>;
              s = s\<lparr> loopCounter := loopCounter s + 1 \<rparr>;
              s = (if uint (loopCounter s) mod 20 = 0 then
                     let s = s\<lparr> secondCounter := secondCounter s + 1 \<rparr>
                     in s\<lparr> status := (status s)\<lparr> secl := of_int (uint (secondCounter s) AND 255) \<rparr> \<rparr>
                   else s)
          in case updateStateMachine s e of (s, e) \<Rightarrow>
             case simulateRPM s e of (s, e) \<Rightarrow>
             let s = simulateThermal s in
             case simulateThrottle s e of (s, e) \<Rightarrow>
             case simulateMAP s e of (s, e) \<Rightarrow>
             let s = simulateFuel s;
                 s = simulateIgnition s in
             case simulateAFR s e of (s, e) \<Rightarrow>
             case simulateCorrections s e of (s, e) \<Rightarrow>
             let s = simulateSensors s in
             case simulateVoltage s e of (s, e) \<Rightarrow>
             let s = simulateCANData s;
                 loops :: uint16_t = of_int (uint (loopCounter s) AND 65535);
                 st = (status s)\<lparr> loopslo := of_int (uint loops AND 255),
                                   loopshi := of_int (drop_bit 8 (uint loops) AND 255),
                                   freeramlo := of_int (8192 AND 255),
                                   freeramhi := of_int (drop_bit 8 8192 AND 255) \<rparr>
             in case random_upto 100 e of (r, e) \<Rightarrow>
                case (if r < 2 then random_range 1 4 e else (0, e)) of (err, e) \<Rightarrow>
                  (True, s\<lparr> status := st\<lparr> errors := of_int err \<rparr> \<rparr>, e))"

definition getRuntime :: "EngineSimulator \<Rightarrow> env \<Rightarrow> uint32_t \<times> env" where
  "getRuntime s e =
     (case millis e of (now, e) \<Rightarrow> (of_int (uint (now - engineStartTime s) div 1000), e))"

section \<open>SpeeduinoProtocol.cpp\<close>

text \<open>
  Modelled from the spec: \<open>ISerialInterface\<close>, the transport, is not among the sources.
  The spec describes it as a byte stream that delivers and accepts raw bytes: \<open>rx\<close>
  holds the bytes still to be read, \<open>tx\<close> the bytes written so far. \<open>available\<close> is the
  number of bytes waiting, \<open>read\<close> takes the first of them and answers \<open>-1\<close> when there
  is none, \<open>write\<close> appends, \<open>flush\<close> and \<open>begin\<close> leave both queues as they are.
\<close>

record transport =
  rx :: "uint8_t list"
  tx :: "uint8_t list"

definition serial_available :: "transport \<Rightarrow> int" where
  "serial_available t = int (length (rx t))"

definition serial_read :: "transport \<Rightarrow> int \<times> transport" where
  "serial_read t = (case rx t of [] \<Rightarrow> (- 1, t) | b # bs \<Rightarrow> (uint b, t\<lparr> rx := bs \<rparr>))"

definition serial_write :: "uint8_t list \<Rightarrow> transport \<Rightarrow> transport" where
  "serial_write bs t = t\<lparr> tx := tx t @ bs \<rparr>"

definition serial_flush :: "transport \<Rightarrow> transport" where
  "serial_flush t = t"

definition serial_begin :: "transport \<Rightarrow> transport" where
  "serial_begin t = t"

record SpeeduinoProtocol =
  commandCount :: uint32_t
  errorCount :: uint32_t
  lastCommandTime :: uint32_t

definition FIRMWARE_VERSION :: string where "FIRMWARE_VERSION = ''2.0.0''"
definition SPEEDUINO_SIGNATURE :: string where "SPEEDUINO_SIGNATURE = ''speeduino 202310''"

definition bytes_of :: "string \<Rightarrow> uint8_t list" where
  "bytes_of str = map (\<lambda>c. of_nat (of_char c)) str"

definition begin_protocol :: "SpeeduinoProtocol \<Rightarrow> transport \<Rightarrow> SpeeduinoProtocol \<times> transport" where
  "begin_protocol p t = (p\<lparr> commandCount := 0, errorCount := 0 \<rparr>, serial_begin t)"

definition sendResponse :: "uint8_t list \<Rightarrow> transport \<Rightarrow> transport" where
  "sendResponse data t = serial_flush (serial_write data t)"

definition sendString :: "string \<Rightarrow> transport \<Rightarrow> transport" where
  "sendString str t = serial_flush (serial_write (bytes_of str) t)"

definition handleRealtimeData :: "EngineSimulator \<Rightarrow> transport \<Rightarrow> transport" where
  "handleRealtimeData sim t = sendResponse (raw_bytes (status sim)) t"

definition handleStatusRequest :: "transport \<Rightarrow> transport" where
  "handleStatusRequest t = sendResponse [0x00, 0x01, 0x01, 0x00] t"

definition handleVersionRequest :: "transport \<Rightarrow> transport" where
  "handleVersionRequest t =
     sendString (''speeduino 202310-sim '' @ FIRMWARE_VERSION @ [CHR 0x0A]) t"

definition handleSignatureRequest :: "transport \<Rightarrow> transport" where
  "handleSignatureRequest t =
     (let sigStr = bytes_of SPEEDUINO_SIGNATURE;
          len = (if length sigStr > 20 then 20 else length sigStr)
      in sendResponse (take len sigStr @ replicate (20 - len) 0) t)"

definition handlePageSizesRequest :: "transport \<Rightarrow> transport" where
  "handlePageSizesRequest t = sendResponse [2, 32, 0, 0, 1, 0, 0] t"

definition handleUnknownCommand :: "uint8_t \<Rightarrow> transport \<Rightarrow> transport" where
  "handleUnknownCommand cmd t = sendResponse [0xFF] t"

definition processCommands ::
  "SpeeduinoProtocol \<Rightarrow> EngineSimulator \<Rightarrow> transport \<Rightarrow> bool \<times> SpeeduinoProtocol \<times> transport" where
  "processCommands p sim t =
     (if serial_available t \<le> 0 then (False, p, t)
      else case serial_read t of (cmdByte, t) \<Rightarrow>
        if cmdByte < 0 then (False, p, t)
        else
          let command :: uint8_t = of_int cmdByte;
              p = p\<lparr> commandCount := commandCount p + 1 \<rparr>
          in if command = 0x41 then (True, p, handleRealtimeData sim t)
             else if command = 0x51 then (True, p, handleStatusRequest t)
             else if command = 0x56 \<or> command = 0x76 then (True, p, handleVersionRequest t)
             else if command = 0x53 then (True, p, handleSignatureRequest t)
             else if command = 0x6E then (True, p, handlePageSizesRequest t)
             else (True, p\<lparr> errorCount := errorCount p + 1 \<rparr>, handleUnknownCommand command t))"

section \<open>Runs of the simulator\<close>

text \<open>
  The states the simulator can be in: \<open>initialize\<close> is called once on the constructed
  object; afterwards the driver calls \<open>update\<close> and the mode override \<open>setMode\<close> in any
  order, whatever the clock and the random source answer.
\<close>

inductive reachable :: "EngineSimulator \<Rightarrow> bool" where
  reachable_initialize: "reachable (fst (initialize constructed e))"
| reachable_update: "reachable s \<Longrightarrow> reachable (fst (snd (update s e)))"
| reachable_setMode: "reachable s \<Longrightarrow> reachable (fst (setMode m s e))"

text \<open>The condition under which \<open>simulateCorrections\<close> runs the closed loop.\<close>

definition closed_loop :: "EngineSimulator \<Rightarrow> bool" where
  "closed_loop s \<longleftrightarrow> sint (coolantTemp s) > 500 \<and> currentMode s \<noteq> WOT"

text \<open>
  What holds of the EGO correction and its trend in every reachable state: before the
  first tick the correction byte is still zero and the coolant is at ambient temperature;
  afterwards the correction stays between 89 and 111 and the trend points inwards at
  both ends.
\<close>

definition ego_inv :: "EngineSimulator \<Rightarrow> bool" where
  "ego_inv s \<longleftrightarrow>
     (sint (egoTrend s) = 1 \<or> sint (egoTrend s) = - 1) \<and>
     ((uint (egocorrection (status s)) = 0 \<and> sint (coolantTemp s) = 200) \<or>
      (89 \<le> uint (egocorrection (status s)) \<and> uint (egocorrection (status s)) \<le> 111 \<and>
       (uint (egocorrection (status s)) = 111 \<longrightarrow> sint (egoTrend s) = - 1) \<and>
       (uint (egocorrection (status s)) = 89 \<longrightarrow> sint (egoTrend s) = 1)))"

text \<open>A 16-bit value as two bytes, low byte first, split as the accessors split it.\<close>

definition little_endian16 :: "uint16_t \<Rightarrow> uint8_t list" where
  "little_endian16 x = [of_int (uint x AND 255), of_int (drop_bit 8 (uint x) AND 255)]"

subsection \<open>Concrete inputs\<close>

text \<open>
  A clock that advances 50 ms between two readings and a random source whose raw value
  is always 0, so that every draw answers the lower end of its range; and a clock that
  stands still.
\<close>

definition env_steady :: env where
  "env_steady = \<lparr> clock = (\<lambda>k. of_nat (50 * k)), reads = 0, rng = (\<lambda>k. 0), draws = 0 \<rparr>"

definition env_frozen :: env where
  "env_frozen = \<lparr> clock = (\<lambda>k. 7), reads = 0, rng = (\<lambda>k. 0), draws = 0 \<rparr>"

definition protocol_fresh :: SpeeduinoProtocol where
  "protocol_fresh = \<lparr> commandCount = 0, errorCount = 0, lastCommandTime = 0 \<rparr>"

definition transport_with :: "uint8_t list \<Rightarrow> transport" where
  "transport_with bs = \<lparr> rx = bs, tx = [] \<rparr>"

text \<open>The simulator right after \<open>initialize\<close>, with the steady clock.\<close>

definition cold_start :: "EngineSimulator \<times> env" where
  "cold_start = initialize constructed env_steady"

subsection \<open>The cold engine that never starts\<close>

text \<open>
  After \<open>initialize\<close> the ramp rate is still the constructor's 0, so in \<open>STARTUP\<close> the RPM
  stays 0 and the state machine never leaves the mode. \<open>cranking\<close> describes these states;
  \<open>on_time\<close> says that the clock is the steady one and that the last accepted tick took
  the reading one or two readings ago; \<open>ticks n\<close> is the driver calling \<open>update\<close> \<open>n\<close>
  times; \<open>cranking_step\<close> is what one accepted tick then does to the coolant temperature,
  the EGO correction and its trend.
\<close>

definition cranking :: "EngineSimulator \<Rightarrow> bool" where
  "cranking s \<longleftrightarrow> currentMode s = STARTUP \<and> currentRPM s = 0 \<and> rpmAcceleration s = 0 \<and>
     targetRPM s = 900"

definition on_time :: "EngineSimulator \<Rightarrow> env \<Rightarrow> bool" where
  "on_time s e \<longleftrightarrow> clock e = (\<lambda>k. of_nat (50 * k)) \<and>
     ((1 \<le> reads e \<and> lastUpdateTime s = of_nat (50 * (reads e - 1))) \<or>
      (2 \<le> reads e \<and> lastUpdateTime s = of_nat (50 * (reads e - 2))))"

fun ticks :: "nat \<Rightarrow> EngineSimulator \<times> env \<Rightarrow> EngineSimulator \<times> env" where
  "ticks 0 p = p"
| "ticks (Suc n) p = snd (update (fst (ticks n p)) (snd (ticks n p)))"

definition cranking_step :: "int16_t \<times> uint8_t \<times> int8_t \<Rightarrow> int16_t \<times> uint8_t \<times> int8_t" where
  "cranking_step x =
     (case x of (c, g, t) \<Rightarrow>
        let c' = interpolate c 800 5;
            hot = sint c' > 500;
            g' = (if hot then of_int (uint g + sint t) else 100);
            t' = (if hot then (if uint g' < 90 then 1
                               else if uint g' > 110 then of_int (- 1) else t)
                  else t)
        in (c', g', t'))"

fun cranking_steps :: "nat \<Rightarrow> int16_t \<times> uint8_t \<times> int8_t \<Rightarrow> int16_t \<times> uint8_t \<times> int8_t" where
  "cranking_steps 0 x = x"
| "cranking_steps (Suc n) x = cranking_step (cranking_steps n x)"

subsection \<open>The engine forced to idle from rest\<close>

text \<open>
  The simulator after \<open>initialize\<close> followed by \<open>setMode(EngineMode::IDLE)\<close>, with the steady
  clock and the random source that always answers the low end of the requested range: the
  engine is at 0 RPM with an idle target of 650 and a ramp of 50 RPM per second.
\<close>

definition forced_idle :: "EngineSimulator \<times> env" where
  "forced_idle = setMode IDLE (fst cold_start) (snd cold_start)"

section \<open>Auxiliary facts\<close>

lemmas config_defs =
  RPM_MIN_def RPM_IDLE_MIN_def RPM_IDLE_MAX_def RPM_CRUISE_def RPM_HIGH_START_def
  RPM_MAX_def RPM_REDLINE_def TEMP_AMBIENT_def TEMP_ENGINE_WARM_def TEMP_ENGINE_HOT_def
  MAP_ATMOSPHERIC_def MAP_IDLE_def MAP_WOT_def BARO_SEALEVEL_def VOLTAGE_NORMAL_def
  AFR_STOICH_def AFR_RICH_def AFR_LEAN_def AFR_WOT_def TPS_IDLE_def TPS_CRUISE_def
  TPS_HALF_def TPS_WOT_def TIMING_IDLE_def TIMING_MAX_def PW_MIN_def PW_MAX_def
  UPDATE_INTERVAL_MS_def STATE_TRANSITION_MS_def

subsection \<open>Arithmetic and bytes\<close>

lemma sdiv_nonneg: "0 \<le> a \<Longrightarrow> 0 < b \<Longrightarrow> (a::int) sdiv b = a div b"
  by (cases "a = 0") (simp_all add: signed_divide_int_def sgn_if)

lemma and255: "(k::int) AND 255 = take_bit 8 k"
  by (simp add: take_bit_eq_mask mask_eq_exp_minus_1)

lemma le16_round_trip:
  "(of_int (push_bit 8 (uint (of_int (drop_bit 8 (uint x) AND 255) :: 8 word))
      OR uint (of_int (uint x AND 255) :: 8 word)) :: 16 word) = x"
  unfolding and255
  by (rule bit_word_eqI) (auto simp add: bit_simps)

lemma le16_round_trip_signed:
  "(of_int (push_bit 8 (uint (of_int (drop_bit 8 (sint x) AND 255) :: 8 word))
      OR uint (of_int (sint x AND 255) :: 8 word)) :: 16 word) = x"
  unfolding and255
  by (rule bit_word_eqI) (auto simp add: bit_simps)

lemma getPulseWidth_setPulseWidth: "getPulseWidth (setPulseWidth x st) = x"
  by (simp add: getPulseWidth_def setPulseWidth_def le16_round_trip)

lemma offset_byte: "uint (of_int (sint (c :: 8 word) + 40) :: 8 word) = (sint c + 40) mod 256"
  by (simp only: uint_word_of_int) simp

subsection \<open>What each stage leaves alone\<close>

lemma length_fold_update:
  "length (fold (\<lambda>i c. c[i := f i]) xs c) = length c"
  by (induction xs arbitrary: c) simp_all

lemmas sel_if =
  if_distrib [of fst] if_distrib [of snd] if_distrib [of status] if_distrib [of response] if_distrib [of canin]
  if_distrib [of egocorrection] if_distrib [of egoTrend] if_distrib [of coolantTemp]
  if_distrib [of currentMode] if_distrib [of pulseWidth] if_distrib [of pw1lo]
  if_distrib [of pw1hi]

lemma simulateRPM_frame:
  "response (status (fst (simulateRPM s e))) = response (status s) \<and>
   canin (status (fst (simulateRPM s e))) = canin (status s) \<and>
   egocorrection (status (fst (simulateRPM s e))) = egocorrection (status s) \<and>
   pw1lo (status (fst (simulateRPM s e))) = pw1lo (status s) \<and>
   pw1hi (status (fst (simulateRPM s e))) = pw1hi (status s) \<and>
   egoTrend (fst (simulateRPM s e)) = egoTrend s \<and>
   coolantTemp (fst (simulateRPM s e)) = coolantTemp s \<and>
   currentMode (fst (simulateRPM s e)) = currentMode s \<and>
   pulseWidth (fst (simulateRPM s e)) = pulseWidth s"
  by (simp add: simulateRPM_def Let_def case_prod_beta sel_if setRPM_def setRPMDot_def)

lemma simulateCorrections_frame:
  "response (status (fst (simulateCorrections s e))) = response (status s) \<and>
   canin (status (fst (simulateCorrections s e))) = canin (status s) \<and>
   pw1lo (status (fst (simulateCorrections s e))) = pw1lo (status s) \<and>
   pw1hi (status (fst (simulateCorrections s e))) = pw1hi (status s) \<and>
   coolantTemp (fst (simulateCorrections s e)) = coolantTemp s \<and>
   currentMode (fst (simulateCorrections s e)) = currentMode s \<and>
   pulseWidth (fst (simulateCorrections s e)) = pulseWidth s"
  by (simp add: simulateCorrections_def Let_def case_prod_beta sel_if)

lemma simulateCANData_shape:
  "\<exists>c. simulateCANData s = s\<lparr> status := (status s)\<lparr> canin := c \<rparr> \<rparr> \<and>
       length c = length (canin (status s))"
  unfolding simulateCANData_def Let_def
  apply (rule exI)
  apply (rule conjI)
  apply (rule refl)
  apply (subst length_fold_update)
  apply (simp only: length_list_update)
  done

lemma simulateCANData_frame:
  "response (status (simulateCANData s)) = response (status s) \<and>
   length (canin (status (simulateCANData s))) = length (canin (status s)) \<and>
   egocorrection (status (simulateCANData s)) = egocorrection (status s) \<and>
   egoTrend (simulateCANData s) = egoTrend s \<and>
   coolantTemp (simulateCANData s) = coolantTemp s \<and>
   currentMode (simulateCANData s) = currentMode s \<and>
   pw1lo (status (simulateCANData s)) = pw1lo (status s) \<and>
   pw1hi (status (simulateCANData s)) = pw1hi (status s) \<and>
   pulseWidth (simulateCANData s) = pulseWidth s"
proof -
  obtain c where "simulateCANData s = s\<lparr> status := (status s)\<lparr> canin := c \<rparr> \<rparr>"
    and "length c = length (canin (status s))"
    using simulateCANData_shape by blast
  then show ?thesis by simp
qed

lemma simulateMAP_frame:
  "response (status (fst (simulateMAP s e))) = response (status s) \<and>
   canin (status (fst (simulateMAP s e))) = canin (status s) \<and>
   egocorrection (status (fst (simulateMAP s e))) = egocorrection (status s) \<and>
   pw1lo (status (fst (simulateMAP s e))) = pw1lo (status s) \<and>
   pw1hi (status (fst (simulateMAP s e))) = pw1hi (status s) \<and>
   egoTrend (fst (simulateMAP s e)) = egoTrend s \<and>
   coolantTemp (fst (simulateMAP s e)) = coolantTemp s \<and>
   currentMode (fst (simulateMAP s e)) = currentMode s \<and>
   pulseWidth (fst (simulateMAP s e)) = pulseWidth s"
  by (simp add: simulateMAP_def Let_def case_prod_beta setMAP_def)

lemma simulateFuel_frame:
  "response (status (simulateFuel s)) = response (status s) \<and>
   canin (status (simulateFuel s)) = canin (status s) \<and>
   egocorrection (status (simulateFuel s)) = egocorrection (status s) \<and>
   egoTrend (simulateFuel s) = egoTrend s \<and>
   coolantTemp (simulateFuel s) = coolantTemp s \<and>
   currentMode (simulateFuel s) = currentMode s"
proof -
  define s1 where "s1 = s\<lparr> status := (status s)\<lparr> ve := calculateVE (currentRPM s) (currentThrottle s) \<rparr> \<rparr>"
  define s2 where "s2 = s1\<lparr> pulseWidth :=
      calculateRequiredPulseWidth (currentRPM s1) (getMAP (status s1)) (ve (status s1)) \<rparr>"
  define w where "w = getWarmupEnrichment (coolantTemp s2)"
  define s3 where "s3 = s2\<lparr> pulseWidth := of_int ((uint (pulseWidth s2) * uint w) sdiv 100) \<rparr>"
  define s4 where "s4 = s3\<lparr> status := (status s3)\<lparr> wue := w \<rparr> \<rparr>"
  define c1 :: "16 word" where
    "c1 = of_int ((uint (pulseWidth s4) * uint (egocorrection (status s4))) sdiv 100)"
  define c2 :: "16 word" where
    "c2 = of_int ((uint c1 * uint (iatcorrection (status s4))) sdiv 100)"
  define c3 where "c3 = (if uint c2 < PW_MIN then of_int PW_MIN else c2)"
  define c4 where "c4 = (if uint c3 > PW_MAX then of_int PW_MAX else c3)"
  define st1 where "st1 = setPulseWidth c4 (status s4)"
  define st2 where "st2 = (if uint (tpsdot st1) > 10
                then st1\<lparr> taeamount := of_int (100 + uint (tpsdot st1) sdiv 2) \<rparr>
                else st1\<lparr> taeamount := 100 \<rparr>)"
  define st3 where "st3 = st2\<lparr> gammae := of_int ((uint (egocorrection st2) * uint (iatcorrection st2)
                                         * uint (wue st2)) sdiv 10000) \<rparr>"
  have eq: "simulateFuel s = s4\<lparr> status := st3 \<rparr>"
    unfolding simulateFuel_def Let_def st3_def st2_def st1_def c4_def c3_def c2_def c1_def
      s4_def s3_def w_def s2_def s1_def
    by (rule refl)
  have a: "response st3 = response (status s4) \<and> canin st3 = canin (status s4) \<and>
        egocorrection st3 = egocorrection (status s4)"
    by (simp add: st3_def st2_def st1_def setPulseWidth_def)
  have b: "response (status s4) = response (status s) \<and> canin (status s4) = canin (status s) \<and>
        egocorrection (status s4) = egocorrection (status s) \<and> egoTrend s4 = egoTrend s \<and>
        coolantTemp s4 = coolantTemp s \<and> currentMode s4 = currentMode s"
    by (simp add: s4_def s3_def s2_def s1_def)
  show ?thesis using a b by (simp add: eq)
qed

lemma simulateThrottle_frame:
  "response (status (fst (simulateThrottle s e))) = response (status s) \<and>
   canin (status (fst (simulateThrottle s e))) = canin (status s) \<and>
   egocorrection (status (fst (simulateThrottle s e))) = egocorrection (status s) \<and>
   pw1lo (status (fst (simulateThrottle s e))) = pw1lo (status s) \<and>
   pw1hi (status (fst (simulateThrottle s e))) = pw1hi (status s) \<and>
   egoTrend (fst (simulateThrottle s e)) = egoTrend s \<and>
   coolantTemp (fst (simulateThrottle s e)) = coolantTemp s \<and>
   currentMode (fst (simulateThrottle s e)) = currentMode s \<and>
   pulseWidth (fst (simulateThrottle s e)) = pulseWidth s"
  by (simp add: simulateThrottle_def Let_def case_prod_beta)

lemma simulateAFR_frame:
  "response (status (fst (simulateAFR s e))) = response (status s) \<and>
   canin (status (fst (simulateAFR s e))) = canin (status s) \<and>
   egocorrection (status (fst (simulateAFR s e))) = egocorrection (status s) \<and>
   pw1lo (status (fst (simulateAFR s e))) = pw1lo (status s) \<and>
   pw1hi (status (fst (simulateAFR s e))) = pw1hi (status s) \<and>
   egoTrend (fst (simulateAFR s e)) = egoTrend s \<and>
   coolantTemp (fst (simulateAFR s e)) = coolantTemp s \<and>
   currentMode (fst (simulateAFR s e)) = currentMode s \<and>
   pulseWidth (fst (simulateAFR s e)) = pulseWidth s"
  by (simp add: simulateAFR_def Let_def case_prod_beta)

lemma simulateVoltage_frame:
  "response (status (fst (simulateVoltage s e))) = response (status s) \<and>
   canin (status (fst (simulateVoltage s e))) = canin (status s) \<and>
   egocorrection (status (fst (simulateVoltage s e))) = egocorrection (status s) \<and>
   pw1lo (status (fst (simulateVoltage s e))) = pw1lo (status s) \<and>
   pw1hi (status (fst (simulateVoltage s e))) = pw1hi (status s) \<and>
   egoTrend (fst (simulateVoltage s e)) = egoTrend s \<and>
   coolantTemp (fst (simulateVoltage s e)) = coolantTemp s \<and>
   currentMode (fst (simulateVoltage s e)) = currentMode s \<and>
   pulseWidth (fst (simulateVoltage s e)) = pulseWidth s"
  by (simp add: simulateVoltage_def Let_def case_prod_beta)

lemma simulateThermal_frame:
  "response (status (simulateThermal s)) = response (status s) \<and>
   canin (status (simulateThermal s)) = canin (status s) \<and>
   egocorrection (status (simulateThermal s)) = egocorrection (status s) \<and>
   pw1lo (status (simulateThermal s)) = pw1lo (status s) \<and>
   pw1hi (status (simulateThermal s)) = pw1hi (status s) \<and>
   egoTrend (simulateThermal s) = egoTrend s \<and>
   currentMode (simulateThermal s) = currentMode s \<and>
   pulseWidth (simulateThermal s) = pulseWidth s"
  by (simp add: simulateThermal_def Let_def setCoolantTemp_def setIntakeTemp_def)

lemma simulateIgnition_frame:
  "response (status (simulateIgnition s)) = response (status s) \<and>
   canin (status (simulateIgnition s)) = canin (status s) \<and>
   egocorrection (status (simulateIgnition s)) = egocorrection (status s) \<and>
   egoTrend (simulateIgnition s) = egoTrend s \<and>
   coolantTemp (simulateIgnition s) = coolantTemp s \<and>
   currentMode (simulateIgnition s) = currentMode s \<and>
   pw1lo (status (simulateIgnition s)) = pw1lo (status s) \<and>
   pw1hi (status (simulateIgnition s)) = pw1hi (status s) \<and>
   pulseWidth (simulateIgnition s) = pulseWidth s"
  by (simp add: simulateIgnition_def Let_def)

lemma simulateSensors_frame:
  "response (status (simulateSensors s)) = response (status s) \<and>
   canin (status (simulateSensors s)) = canin (status s) \<and>
   egocorrection (status (simulateSensors s)) = egocorrection (status s) \<and>
   egoTrend (simulateSensors s) = egoTrend s \<and>
   coolantTemp (simulateSensors s) = coolantTemp s \<and>
   currentMode (simulateSensors s) = currentMode s \<and>
   pw1lo (status (simulateSensors s)) = pw1lo (status s) \<and>
   pw1hi (status (simulateSensors s)) = pw1hi (status s) \<and>
   pulseWidth (simulateSensors s) = pulseWidth s"
  by (simp add: simulateSensors_def Let_def sel_if)

lemma transitionToMode_frame:
  "status (fst (transitionToMode m s e)) = status s \<and>
   egoTrend (fst (transitionToMode m s e)) = egoTrend s \<and>
   coolantTemp (fst (transitionToMode m s e)) = coolantTemp s \<and>
   pulseWidth (fst (transitionToMode m s e)) = pulseWidth s \<and>
   currentRPM (fst (transitionToMode m s e)) = currentRPM s \<and>
   currentMode (fst (transitionToMode m s e)) = m \<and>
   stateStartTime (fst (transitionToMode m s e)) = clock e (reads e)"
  by (cases m) (simp_all add: transitionToMode_def millis_def Let_def case_prod_beta)

lemma updateStateMachine_frame:
  "status (fst (updateStateMachine s e)) = status s \<and>
   egoTrend (fst (updateStateMachine s e)) = egoTrend s \<and>
   coolantTemp (fst (updateStateMachine s e)) = coolantTemp s \<and>
   pulseWidth (fst (updateStateMachine s e)) = pulseWidth s \<and>
   currentRPM (fst (updateStateMachine s e)) = currentRPM s"
  by (cases "currentMode s")
     (simp_all add: updateStateMachine_def Let_def case_prod_beta transitionToMode_frame)

subsection \<open>The stages of an accepted tick\<close>

lemma update_chain:
  assumes "update s e = (ok, s', e')"
  shows "(\<not> ok \<and> s' = s) \<or>
    (ok \<and>
     (\<exists>s0 e0 s1 e1 s2 e2 s4 e4 s5 e5 s8 e8 s9 e9 s11 e11 st.
        status s0 = (status s)\<lparr> secl := secl (status s0) \<rparr> \<and>
        egoTrend s0 = egoTrend s \<and> coolantTemp s0 = coolantTemp s \<and>
        currentMode s0 = currentMode s \<and> pulseWidth s0 = pulseWidth s \<and>
        updateStateMachine s0 e0 = (s1, e1) \<and>
        simulateRPM s1 e1 = (s2, e2) \<and>
        simulateThrottle (simulateThermal s2) e2 = (s4, e4) \<and>
        simulateMAP s4 e4 = (s5, e5) \<and>
        simulateAFR (simulateIgnition (simulateFuel s5)) e5 = (s8, e8) \<and>
        simulateCorrections s8 e8 = (s9, e9) \<and>
        simulateVoltage (simulateSensors s9) e9 = (s11, e11) \<and>
        s' = (simulateCANData s11)\<lparr> status := st \<rparr> \<and>
        st = (status (simulateCANData s11))\<lparr> loopslo := loopslo st, loopshi := loopshi st,
               freeramlo := freeramlo st, freeramhi := freeramhi st, errors := errors st \<rparr>))"
proof (cases ok)
  case False
  with assms have "s' = s"
    unfolding update_def millis_def
    by (auto simp add: Let_def split: prod.splits if_splits)
  with False show ?thesis by simp
next
  case True
  define t where "t = clock e (reads e)"
  define e0 where "e0 = e\<lparr> reads := Suc (reads e) \<rparr>"
  define sa where "sa = s\<lparr> lastUpdateTime := t, loopCounter := loopCounter s + 1 \<rparr>"
  define s0 where "s0 = (if uint (loopCounter sa) mod 20 = 0
      then sa\<lparr> secondCounter := secondCounter sa + 1,
               status := (status sa)\<lparr> secl := of_int (uint (secondCounter sa + 1) AND 255) \<rparr> \<rparr>
      else sa)"
  obtain s1 e1 where 1: "updateStateMachine s0 e0 = (s1, e1)" by (meson surj_pair)
  obtain s2 e2 where 2: "simulateRPM s1 e1 = (s2, e2)" by (meson surj_pair)
  obtain s4 e4 where 4: "simulateThrottle (simulateThermal s2) e2 = (s4, e4)" by (meson surj_pair)
  obtain s5 e5 where 5: "simulateMAP s4 e4 = (s5, e5)" by (meson surj_pair)
  obtain s8 e8 where 8: "simulateAFR (simulateIgnition (simulateFuel s5)) e5 = (s8, e8)"
    by (meson surj_pair)
  obtain s9 e9 where 9: "simulateCorrections s8 e8 = (s9, e9)" by (meson surj_pair)
  obtain s11 e11 where 11: "simulateVoltage (simulateSensors s9) e9 = (s11, e11)"
    by (meson surj_pair)
  have gate: "\<not> uint (t - lastUpdateTime s) < UPDATE_INTERVAL_MS"
    using assms True unfolding update_def millis_def t_def
    by (auto simp add: Let_def split: prod.splits if_splits)
  have pre: "status s0 = (status s)\<lparr> secl := secl (status s0) \<rparr> \<and>
        egoTrend s0 = egoTrend s \<and> coolantTemp s0 = coolantTemp s \<and>
        currentMode s0 = currentMode s \<and> pulseWidth s0 = pulseWidth s"
    by (simp add: s0_def sa_def)
  have H: "update s e =
      (case updateStateMachine s0 e0 of (s, e) \<Rightarrow>
       case simulateRPM s e of (s, e) \<Rightarrow>
       case simulateThrottle (simulateThermal s) e of (s, e) \<Rightarrow>
       case simulateMAP s e of (s, e) \<Rightarrow>
       case simulateAFR (simulateIgnition (simulateFuel s)) e of (s, e) \<Rightarrow>
       case simulateCorrections s e of (s, e) \<Rightarrow>
       case simulateVoltage (simulateSensors s) e of (s, e) \<Rightarrow>
       case random_upto 100 e of (r, e) \<Rightarrow>
       case (if r < 2 then random_range 1 4 e else (0, e)) of (err, e) \<Rightarrow>
         (True, (simulateCANData s)\<lparr> status := (status (simulateCANData s))\<lparr>
             loopslo := of_int (uint (of_int (uint (loopCounter (simulateCANData s)) AND 65535) :: 16 word) AND 255),
             loopshi := of_int (drop_bit 8 (uint (of_int (uint (loopCounter (simulateCANData s)) AND 65535) :: 16 word)) AND 255),
             freeramlo := of_int (8192 AND 255), freeramhi := of_int (drop_bit 8 8192 AND 255),
             errors := of_int err \<rparr> \<rparr>, e))"
    using gate unfolding update_def millis_def t_def e0_def s0_def sa_def Let_def
    by simp
  have "\<exists>st. s' = (simulateCANData s11)\<lparr> status := st \<rparr> \<and>
        st = (status (simulateCANData s11))\<lparr> loopslo := loopslo st, loopshi := loopshi st,
               freeramlo := freeramlo st, freeramhi := freeramhi st, errors := errors st \<rparr>"
    using assms unfolding H 1 2 4 5 8 9 11 prod.case
    by (auto split: prod.splits)
  with True pre 1 2 4 5 8 9 11 show ?thesis by blast
qed

lemma initialize_facts:
  "response (status (fst (initialize s e))) = 0x41 \<and>
   length (canin (status (fst (initialize s e)))) = 32 \<and>
   egocorrection (status (fst (initialize s e))) = 0 \<and>
   coolantTemp (fst (initialize s e)) = 200 \<and>
   egoTrend (fst (initialize s e)) = egoTrend s"
  by (simp add: initialize_def millis_def Let_def zero_status_def setRPM_def setMAP_def
      setCoolantTemp_def setIntakeTemp_def TEMP_AMBIENT_def)

lemma update_wire:
  assumes "update s e = (ok, s', e')"
  shows "response (status s') = response (status s) \<and>
         length (canin (status s')) = length (canin (status s))"
proof -
  from update_chain [OF assms] show ?thesis
  proof (elim disjE conjE exE)
    assume "s' = s" then show ?thesis by simp
  next
    fix s0 e0 s1 e1 s2 e2 s4 e4 s5 e5 s8 e8 s9 e9 s11 e11 st
    assume a: "status s0 = (status s)\<lparr> secl := secl (status s0) \<rparr>"
      "updateStateMachine s0 e0 = (s1, e1)" "simulateRPM s1 e1 = (s2, e2)"
      "simulateThrottle (simulateThermal s2) e2 = (s4, e4)"
      "simulateMAP s4 e4 = (s5, e5)"
      "simulateAFR (simulateIgnition (simulateFuel s5)) e5 = (s8, e8)"
      "simulateCorrections s8 e8 = (s9, e9)"
      "simulateVoltage (simulateSensors s9) e9 = (s11, e11)"
      "s' = (simulateCANData s11)\<lparr> status := st \<rparr>"
      "st = (status (simulateCANData s11))\<lparr> loopslo := loopslo st, loopshi := loopshi st,
               freeramlo := freeramlo st, freeramhi := freeramhi st, errors := errors st \<rparr>"
    have 0: "response (status s0) = response (status s) \<and> canin (status s0) = canin (status s)"
      by (subst (1 2) a(1)) simp
    have 1: "response (status s1) = response (status s0) \<and> canin (status s1) = canin (status s0)"
      using updateStateMachine_frame [of s0 e0] a(2) by simp
    have 2: "response (status s2) = response (status s1) \<and> canin (status s2) = canin (status s1)"
      using simulateRPM_frame [of s1 e1] a(3) by simp
    have 4: "response (status s4) = response (status s2) \<and> canin (status s4) = canin (status s2)"
      using simulateThrottle_frame [of "simulateThermal s2" e2] simulateThermal_frame [of s2] a(4)
      by simp
    have 5: "response (status s5) = response (status s4) \<and> canin (status s5) = canin (status s4)"
      using simulateMAP_frame [of s4 e4] a(5) by simp
    have 8: "response (status s8) = response (status s5) \<and> canin (status s8) = canin (status s5)"
      using simulateAFR_frame [of "simulateIgnition (simulateFuel s5)" e5]
        simulateIgnition_frame [of "simulateFuel s5"] simulateFuel_frame [of s5] a(6)
      by simp
    have 9: "response (status s9) = response (status s8) \<and> canin (status s9) = canin (status s8)"
      using simulateCorrections_frame [of s8 e8] a(7) by simp
    have 11: "response (status s11) = response (status s9) \<and> canin (status s11) = canin (status s9)"
      using simulateVoltage_frame [of "simulateSensors s9" e9] simulateSensors_frame [of s9] a(8)
      by simp
    have 12: "response st = response (status s11) \<and> length (canin st) = length (canin (status s11))"
      using simulateCANData_frame [of s11] by (subst (1 2) a(10)) simp
    show ?thesis using 0 1 2 4 5 8 9 11 12 a(9) by simp
  qed
qed

lemma reachable_wire:
  "reachable s \<Longrightarrow> response (status s) = 0x41 \<and> length (canin (status s)) = 32"
proof (induction rule: reachable.induct)
  case (reachable_initialize e)
  then show ?case using initialize_facts [of constructed e] by simp
next
  case (reachable_update s e)
  obtain ok s' e' where u: "update s e = (ok, s', e')" by (metis surj_pair)
  from update_wire [OF u] reachable_update.IH u show ?case by simp
next
  case (reachable_setMode s m e)
  then show ?case using transitionToMode_frame [of m s e] by (simp add: setMode_def)
qed

subsection \<open>What the fuel, correction and RPM stages compute\<close>

lemma calculateRequiredPulseWidth_range:
  "PW_MIN \<le> uint (calculateRequiredPulseWidth rpm m v) \<and>
   uint (calculateRequiredPulseWidth rpm m v) \<le> PW_MAX"
proof -
  define q where "q = (uint m * uint v * 1000) mod 2 ^ 32 div (uint rpm + 1) div 10"
  define q1 where "q1 = (if q < PW_MIN then PW_MIN else q)"
  define q2 where "q2 = (if q1 > PW_MAX then PW_MAX else q1)"
  have eq: "calculateRequiredPulseWidth rpm m v = of_int q2"
    unfolding calculateRequiredPulseWidth_def Let_def q2_def q1_def q_def by (rule refl)
  have r: "10 \<le> q2 \<and> q2 \<le> 255"
    by (simp add: q2_def q1_def PW_MIN_def PW_MAX_def)
  then have "uint (of_int q2 :: 16 word) = q2"
    by (simp add: uint_word_of_int)
  with r show ?thesis by (simp add: eq PW_MIN_def PW_MAX_def)
qed


lemma getWarmupEnrichment_range:
  "100 \<le> uint (getWarmupEnrichment c) \<and> uint (getWarmupEnrichment c) \<le> 140"
  by (simp add: getWarmupEnrichment_def Let_def)

lemma enriched_range:
  assumes "10 \<le> (a::int)" "a \<le> 255" "100 \<le> w" "w \<le> 140"
  shows "10 \<le> (a * w) sdiv 100 \<and> (a * w) sdiv 100 \<le> 357"
proof -
  have p: "0 \<le> a * w" using assms by simp
  have lo: "10 * 100 \<le> a * w" using assms by (intro mult_mono) simp_all
  have hi: "a * w \<le> 255 * 140" using assms by (intro mult_mono) simp_all
  have "(a * w) sdiv 100 = (a * w) div 100" using p by (simp add: sdiv_nonneg)
  moreover have "10 \<le> (a * w) div 100" using lo by simp
  moreover have "(a * w) div 100 \<le> 357" using hi by simp
  ultimately show ?thesis by simp
qed


lemma simulateFuel_effect:
  "PW_MIN \<le> uint (pulseWidth (simulateFuel s)) \<and> uint (pulseWidth (simulateFuel s)) \<le> 357 \<and>
   PW_MIN \<le> uint (getPulseWidth (status (simulateFuel s))) \<and>
   uint (getPulseWidth (status (simulateFuel s))) \<le> PW_MAX \<and>
   (egocorrection (status s) = 0 \<longrightarrow> uint (getPulseWidth (status (simulateFuel s))) = PW_MIN)"
proof -
  define s1 where "s1 = s\<lparr> status := (status s)\<lparr> ve := calculateVE (currentRPM s) (currentThrottle s) \<rparr> \<rparr>"
  define s2 where "s2 = s1\<lparr> pulseWidth :=
      calculateRequiredPulseWidth (currentRPM s1) (getMAP (status s1)) (ve (status s1)) \<rparr>"
  define w where "w = getWarmupEnrichment (coolantTemp s2)"
  define s3 where "s3 = s2\<lparr> pulseWidth := of_int ((uint (pulseWidth s2) * uint w) sdiv 100) \<rparr>"
  define s4 where "s4 = s3\<lparr> status := (status s3)\<lparr> wue := w \<rparr> \<rparr>"
  define c1 :: "16 word" where
    "c1 = of_int ((uint (pulseWidth s4) * uint (egocorrection (status s4))) sdiv 100)"
  define c2 :: "16 word" where
    "c2 = of_int ((uint c1 * uint (iatcorrection (status s4))) sdiv 100)"
  define c3 where "c3 = (if uint c2 < PW_MIN then of_int PW_MIN else c2)"
  define c4 where "c4 = (if uint c3 > PW_MAX then of_int PW_MAX else c3)"
  define st1 where "st1 = setPulseWidth c4 (status s4)"
  define st2 where "st2 = (if uint (tpsdot st1) > 10
                then st1\<lparr> taeamount := of_int (100 + uint (tpsdot st1) sdiv 2) \<rparr>
                else st1\<lparr> taeamount := 100 \<rparr>)"
  define st3 where "st3 = st2\<lparr> gammae := of_int ((uint (egocorrection st2) * uint (iatcorrection st2)
                                         * uint (wue st2)) sdiv 10000) \<rparr>"
  have eq: "simulateFuel s = s4\<lparr> status := st3 \<rparr>"
    unfolding simulateFuel_def Let_def st3_def st2_def st1_def c4_def c3_def c2_def c1_def
      s4_def s3_def w_def s2_def s1_def
    by (rule refl)
  have pw: "pulseWidth (simulateFuel s) = of_int ((uint (pulseWidth s2) * uint w) sdiv 100)"
    by (simp add: eq s4_def s3_def)
  have r2: "10 \<le> uint (pulseWidth s2) \<and> uint (pulseWidth s2) \<le> 255"
    using calculateRequiredPulseWidth_range
      [of "currentRPM s1" "getMAP (status s1)" "ve (status s1)"]
    by (simp add: s2_def PW_MIN_def PW_MAX_def)
  have rw: "100 \<le> uint w \<and> uint w \<le> 140"
    unfolding w_def by (rule getWarmupEnrichment_range)
  have r3: "10 \<le> (uint (pulseWidth s2) * uint w) sdiv 100 \<and>
            (uint (pulseWidth s2) * uint w) sdiv 100 \<le> 357"
    using r2 rw by (intro enriched_range) simp_all
  then have "uint (of_int ((uint (pulseWidth s2) * uint w) sdiv 100) :: 16 word)
             = (uint (pulseWidth s2) * uint w) sdiv 100"
    by (simp add: uint_word_of_int)
  with r3 have A: "PW_MIN \<le> uint (pulseWidth (simulateFuel s)) \<and>
                   uint (pulseWidth (simulateFuel s)) \<le> 357"
    by (simp add: pw PW_MIN_def)
  have "getPulseWidth st3 = getPulseWidth st1"
    by (simp add: st3_def st2_def getPulseWidth_def)
  then have g: "getPulseWidth (status (simulateFuel s)) = c4"
    by (simp add: eq st1_def getPulseWidth_setPulseWidth)
  have B: "PW_MIN \<le> uint c4 \<and> uint c4 \<le> PW_MAX"
    by (simp add: c4_def c3_def PW_MIN_def PW_MAX_def)
  have C: "uint c4 = PW_MIN" if "egocorrection (status s) = 0"
  proof -
    have "egocorrection (status s4) = 0"
      using that by (simp add: s4_def s3_def s2_def s1_def)
    then have "c1 = 0" by (simp add: c1_def)
    then have "c2 = 0" by (simp add: c2_def)
    then show ?thesis by (simp add: c4_def c3_def PW_MIN_def PW_MAX_def)
  qed
  from A B C show ?thesis by (simp add: g)
qed


lemma simulateCorrections_effect:
  "egocorrection (status (fst (simulateCorrections s e))) =
     (if closed_loop s then of_int (uint (egocorrection (status s)) + sint (egoTrend s)) else 100) \<and>
   egoTrend (fst (simulateCorrections s e)) =
     (if closed_loop s
      then (if uint (of_int (uint (egocorrection (status s)) + sint (egoTrend s)) :: 8 word) < 90 then 1
            else if uint (of_int (uint (egocorrection (status s)) + sint (egoTrend s)) :: 8 word) > 110
            then of_int (- 1) else egoTrend s)
      else egoTrend s)"
proof -
  define sa where "sa = s\<lparr> status := (status s)\<lparr> egocorrection :=
                              of_int (uint (egocorrection (status s)) + sint (egoTrend s)) \<rparr> \<rparr>"
  define sb where "sb = (if uint (egocorrection (status sa)) > 110
                          then sa\<lparr> egoTrend := of_int (- 1) \<rparr> else sa)"
  define sc where "sc = (if uint (egocorrection (status sb)) < 90
                          then sb\<lparr> egoTrend := 1 \<rparr> else sb)"
  define s1 where "s1 = (if sint (coolantTemp s) > 500 \<and> currentMode s \<noteq> WOT then sc
               else s\<lparr> status := (status s)\<lparr> egocorrection := 100 \<rparr> \<rparr>)"
  define iatCelsius :: "16 word" where "iatCelsius = of_int (sint (intakeTemp s1) sdiv 10)"
  define st0 where "st0 = status s1"
  define st1 where "st1 = (if sint iatCelsius < 0 then st0\<lparr> iatcorrection := 110 \<rparr>
                else if sint iatCelsius < 10 then st0\<lparr> iatcorrection := 105 \<rparr>
                else st0\<lparr> iatcorrection := 100 \<rparr>)"
  define st2 where "st2 = (if uint (batteryv st1) < 12 then st1\<lparr> batcorrection := 105 \<rparr>
                else st1\<lparr> batcorrection := 100 \<rparr>)"
  define st3 where "st3 = st2\<lparr> ethanolpct := 0, flexcorrection := 100, flexigncorrection := 0 \<rparr>"
  define il where "il = (if currentMode s1 = IDLE
               then (case random_range (-5) 5 e of (r, e) \<Rightarrow> (of_int (30 + r) :: 8 word, e))
               else (0, e))"
  have eq: "simulateCorrections s e =
      (case il of (il, e) \<Rightarrow> (s1\<lparr> status := st3\<lparr> idleload := il, boosttarget := 0, boostduty := 0 \<rparr> \<rparr>, e))"
    unfolding simulateCorrections_def Let_def il_def st3_def st2_def st1_def st0_def
      iatCelsius_def s1_def sc_def sb_def sa_def
    by (rule refl)
  have e1: "egocorrection st3 = egocorrection (status s1)"
    by (simp add: st3_def st2_def st1_def st0_def)
  have "egocorrection (status (fst (simulateCorrections s e))) = egocorrection (status s1) \<and>
        egoTrend (fst (simulateCorrections s e)) = egoTrend s1"
    by (simp add: eq e1 case_prod_beta)
  moreover have "egocorrection (status s1) =
     (if closed_loop s then of_int (uint (egocorrection (status s)) + sint (egoTrend s)) else 100)"
    by (simp add: s1_def sc_def sb_def sa_def closed_loop_def)
  moreover have "egoTrend s1 = (if closed_loop s
      then (if uint (of_int (uint (egocorrection (status s)) + sint (egoTrend s)) :: 8 word) < 90 then 1
            else if uint (of_int (uint (egocorrection (status s)) + sint (egoTrend s)) :: 8 word) > 110
            then of_int (- 1) else egoTrend s)
      else egoTrend s)"
    by (simp add: s1_def sc_def sb_def sa_def closed_loop_def)
  ultimately show ?thesis by simp
qed

lemma rpm_only_if:
  "\<exists>r. a = s\<lparr> currentRPM := r \<rparr> \<Longrightarrow> \<exists>r. b = s\<lparr> currentRPM := r \<rparr> \<Longrightarrow>
   \<exists>r. (if c then a else b) = s\<lparr> currentRPM := r \<rparr>"
  by simp

lemma rpm_only_upd:
  "\<exists>r. a = s\<lparr> currentRPM := r \<rparr> \<Longrightarrow> \<exists>r. a\<lparr> currentRPM := x \<rparr> = s\<lparr> currentRPM := r \<rparr>"
  by auto

lemma rpm_only_refl: "\<exists>r. s = s\<lparr> currentRPM := r \<rparr>"
  by (rule exI [of _ "currentRPM s"]) simp

lemma simulateRPM_shape:
  "\<exists>r d. simulateRPM s e =
     (s\<lparr> currentRPM := r, status := setRPMDot (rpmAcceleration s) (setRPM r (status s)) \<rparr>,
      e\<lparr> draws := d \<rparr>)"
proof -
  define delta :: "16 word" where
    "delta = of_int ((sint (rpmAcceleration s) * UPDATE_INTERVAL_MS) sdiv 1000)"
  define sa where "sa = s\<lparr> currentRPM := of_int (uint (currentRPM s) + sint delta) \<rparr>"
  define s1 where "s1 = (if uint (currentRPM s) < uint (targetRPM s) then
                 (if uint (currentRPM sa) > uint (targetRPM sa)
                    then sa\<lparr> currentRPM := targetRPM sa \<rparr> else sa)
               else if uint (currentRPM s) > uint (targetRPM s) then
                 (if uint (currentRPM sa) < uint (targetRPM sa)
                    then sa\<lparr> currentRPM := targetRPM sa \<rparr> else sa)
               else s)"
  define s2 where "s2 = (if sint (currentRPM s1) < RPM_MIN then s1\<lparr> currentRPM := of_int RPM_MIN \<rparr> else s1)"
  define s3 where "s3 = (if uint (currentRPM s2) > RPM_MAX then s2\<lparr> currentRPM := of_int RPM_MAX \<rparr> else s2)"
  define J where "J = (if currentMode s3 = IDLE \<or> currentMode s3 = WARMUP_IDLE
               then (case random_range (-10) 10 e of (r, e) \<Rightarrow>
                       (s3\<lparr> currentRPM := of_int (uint (currentRPM s3) + r) \<rparr>, e))
               else (s3, e))"
  have eq: "simulateRPM s e = (case J of (s, e) \<Rightarrow>
             (s\<lparr> status := setRPMDot (rpmAcceleration s) (setRPM (currentRPM s) (status s)) \<rparr>, e))"
    unfolding simulateRPM_def Let_def J_def s3_def s2_def s1_def sa_def delta_def
    by (rule refl)
  have 1: "\<exists>r. s1 = s\<lparr> currentRPM := r \<rparr>"
    unfolding s1_def sa_def by (intro rpm_only_if rpm_only_upd rpm_only_refl)
  have 2: "\<exists>r. s2 = s\<lparr> currentRPM := r \<rparr>"
    unfolding s2_def by (intro rpm_only_if rpm_only_upd 1)
  have 3: "\<exists>r. s3 = s\<lparr> currentRPM := r \<rparr>"
    unfolding s3_def by (intro rpm_only_if rpm_only_upd 2)
  have "\<exists>r d. J = (s\<lparr> currentRPM := r \<rparr>, e\<lparr> draws := d \<rparr>)"
  proof (cases "currentMode s3 = IDLE \<or> currentMode s3 = WARMUP_IDLE")
    case True
    then have "J = (s3\<lparr> currentRPM := of_int (uint (currentRPM s3) + fst (random_range (-10) 10 e)) \<rparr>,
                    e\<lparr> draws := Suc (draws e) \<rparr>)"
      by (simp add: J_def random_range_def)
    moreover obtain r where "s3\<lparr> currentRPM := of_int (uint (currentRPM s3) + fst (random_range (-10) 10 e)) \<rparr>
        = s\<lparr> currentRPM := r \<rparr>"
      using rpm_only_upd [OF 3] by blast
    ultimately show ?thesis by auto
  next
    case False
    then have "J = (s3, e)" by (simp add: J_def)
    moreover have "e = e\<lparr> draws := draws e \<rparr>" by simp
    ultimately show ?thesis using 3 by metis
  qed
  then obtain r d where "J = (s\<lparr> currentRPM := r \<rparr>, e\<lparr> draws := d \<rparr>)" by blast
  then have "simulateRPM s e =
     (s\<lparr> currentRPM := r, status := setRPMDot (rpmAcceleration s) (setRPM r (status s)) \<rparr>,
      e\<lparr> draws := d \<rparr>)"
    by (simp add: eq)
  then show ?thesis by blast
qed

subsection \<open>The closed loop\<close>

lemma simulateThermal_coolant:
  "coolantTemp (simulateThermal s) =
     interpolate (coolantTemp s)
       (if currentMode s = WOT \<or> currentMode s = HIGH_RPM then of_int TEMP_ENGINE_HOT
        else if currentMode s = IDLE \<or> currentMode s = WARMUP_IDLE
        then of_int (TEMP_ENGINE_WARM - 50) else of_int TEMP_ENGINE_WARM) 5"
  by (simp add: simulateThermal_def Let_def)

lemma thermal_from_ambient:
  assumes "sint (coolantTemp s) = 200"
  shows "sint (coolantTemp (simulateThermal s)) \<le> 500"
proof -
  have "coolantTemp s = of_int (sint (coolantTemp s))" by simp
  then have c: "coolantTemp s = 200" unfolding assms by simp
  show ?thesis
    unfolding simulateThermal_coolant c
    by (simp add: interpolate_def Let_def TEMP_ENGINE_HOT_def TEMP_ENGINE_WARM_def)
qed


lemma ego_step:
  fixes g t :: "8 word"
  assumes "sint t = 1 \<or> sint t = - 1"
    and "89 \<le> uint g" "uint g \<le> 111"
    and "uint g = 111 \<longrightarrow> sint t = - 1" "uint g = 89 \<longrightarrow> sint t = 1"
  shows "uint (g + t) = uint g + sint t \<and>
         89 \<le> uint g + sint t \<and> uint g + sint t \<le> 111"
proof -
  have r: "89 \<le> uint g + sint t \<and> uint g + sint t \<le> 111"
    using assms by auto
  have "g + t = of_int (uint g + sint t)" by simp
  then have "uint (g + t) = (uint g + sint t) mod 2 ^ LENGTH(8)"
    by (simp only: uint_word_of_int)
  with r show ?thesis by simp
qed


lemma corrections_ego_inv:
  assumes t: "sint (egoTrend s) = 1 \<or> sint (egoTrend s) = - 1"
    and b: "(uint (egocorrection (status s)) = 0 \<and> \<not> closed_loop s) \<or>
      (89 \<le> uint (egocorrection (status s)) \<and> uint (egocorrection (status s)) \<le> 111 \<and>
       (uint (egocorrection (status s)) = 111 \<longrightarrow> sint (egoTrend s) = - 1) \<and>
       (uint (egocorrection (status s)) = 89 \<longrightarrow> sint (egoTrend s) = 1))"
    and r: "s' = fst (simulateCorrections s e)"
  shows "(sint (egoTrend s') = 1 \<or> sint (egoTrend s') = - 1) \<and>
         89 \<le> uint (egocorrection (status s')) \<and> uint (egocorrection (status s')) \<le> 111 \<and>
         (uint (egocorrection (status s')) = 111 \<longrightarrow> sint (egoTrend s') = - 1) \<and>
         (uint (egocorrection (status s')) = 89 \<longrightarrow> sint (egoTrend s') = 1) \<and>
         (\<not> closed_loop s \<longrightarrow> uint (egocorrection (status s')) = 100)"
proof (cases "closed_loop s")
  case False
  then show ?thesis
    using t simulateCorrections_effect [of s e] by (simp add: r)
next
  case True
  with b have b': "89 \<le> uint (egocorrection (status s))" "uint (egocorrection (status s)) \<le> 111"
       "uint (egocorrection (status s)) = 111 \<longrightarrow> sint (egoTrend s) = - 1"
       "uint (egocorrection (status s)) = 89 \<longrightarrow> sint (egoTrend s) = 1"
    by auto
  note st = ego_step [OF t b']
  show ?thesis
    using True t st simulateCorrections_effect [of s e]
    by (auto simp add: r)
qed

subsection \<open>Through a whole tick\<close>

lemma update_fuel:
  assumes "update s e = (True, s', e')"
  shows "\<exists>x. pulseWidth s' = pulseWidth (simulateFuel x) \<and>
             pw1lo (status s') = pw1lo (status (simulateFuel x)) \<and>
             pw1hi (status s') = pw1hi (status (simulateFuel x)) \<and>
             egocorrection (status x) = egocorrection (status s)"
proof -
  from update_chain [OF assms] obtain s0 e0 s1 e1 s2 e2 s4 e4 s5 e5 s8 e8 s9 e9 s11 e11 st
    where a: "status s0 = (status s)\<lparr> secl := secl (status s0) \<rparr>"
      "updateStateMachine s0 e0 = (s1, e1)" "simulateRPM s1 e1 = (s2, e2)"
      "simulateThrottle (simulateThermal s2) e2 = (s4, e4)"
      "simulateMAP s4 e4 = (s5, e5)"
      "simulateAFR (simulateIgnition (simulateFuel s5)) e5 = (s8, e8)"
      "simulateCorrections s8 e8 = (s9, e9)"
      "simulateVoltage (simulateSensors s9) e9 = (s11, e11)"
      "s' = (simulateCANData s11)\<lparr> status := st \<rparr>"
      "st = (status (simulateCANData s11))\<lparr> loopslo := loopslo st, loopshi := loopshi st,
               freeramlo := freeramlo st, freeramhi := freeramhi st, errors := errors st \<rparr>"
    by auto
  have 0: "egocorrection (status s0) = egocorrection (status s)"
    by (subst a(1)) simp
  have 1: "egocorrection (status s1) = egocorrection (status s0)"
    using updateStateMachine_frame [of s0 e0] a(2) by simp
  have 2: "egocorrection (status s2) = egocorrection (status s1)"
    using simulateRPM_frame [of s1 e1] a(3) by simp
  have 4: "egocorrection (status s4) = egocorrection (status s2)"
    using simulateThrottle_frame [of "simulateThermal s2" e2] simulateThermal_frame [of s2] a(4)
    by simp
  have 5: "egocorrection (status s5) = egocorrection (status s4)"
    using simulateMAP_frame [of s4 e4] a(5) by simp
  let ?f = "simulateFuel s5"
  have 8: "pulseWidth s8 = pulseWidth ?f \<and> pw1lo (status s8) = pw1lo (status ?f) \<and>
           pw1hi (status s8) = pw1hi (status ?f)"
    using simulateAFR_frame [of "simulateIgnition ?f" e5] simulateIgnition_frame [of ?f] a(6)
    by simp
  have 9: "pulseWidth s9 = pulseWidth s8 \<and> pw1lo (status s9) = pw1lo (status s8) \<and>
           pw1hi (status s9) = pw1hi (status s8)"
    using simulateCorrections_frame [of s8 e8] a(7) by simp
  have 11: "pulseWidth s11 = pulseWidth s9 \<and> pw1lo (status s11) = pw1lo (status s9) \<and>
           pw1hi (status s11) = pw1hi (status s9)"
    using simulateVoltage_frame [of "simulateSensors s9" e9] simulateSensors_frame [of s9] a(8)
    by simp
  have 12: "pw1lo st = pw1lo (status s11) \<and> pw1hi st = pw1hi (status s11)"
    using simulateCANData_frame [of s11] by (subst (1 2) a(10)) simp
  have 13: "pulseWidth s' = pulseWidth s11 \<and> status s' = st"
    using simulateCANData_frame [of s11] by (simp add: a(9))
  show ?thesis
    using 0 1 2 4 5 8 9 11 12 13 by (intro exI [of _ s5]) simp
qed

lemma update_ego:
  assumes inv: "ego_inv s" and u: "update s e = (True, s', e')"
  shows "ego_inv s' \<and>
         (if closed_loop s' then 89 \<le> uint (egocorrection (status s')) \<and>
                                 uint (egocorrection (status s')) \<le> 111
          else uint (egocorrection (status s')) = 100)"
proof -
  from update_chain [OF u] obtain s0 e0 s1 e1 s2 e2 s4 e4 s5 e5 s8 e8 s9 e9 s11 e11 st
    where a: "status s0 = (status s)\<lparr> secl := secl (status s0) \<rparr>"
      "egoTrend s0 = egoTrend s" "coolantTemp s0 = coolantTemp s"
      "updateStateMachine s0 e0 = (s1, e1)" "simulateRPM s1 e1 = (s2, e2)"
      "simulateThrottle (simulateThermal s2) e2 = (s4, e4)"
      "simulateMAP s4 e4 = (s5, e5)"
      "simulateAFR (simulateIgnition (simulateFuel s5)) e5 = (s8, e8)"
      "simulateCorrections s8 e8 = (s9, e9)"
      "simulateVoltage (simulateSensors s9) e9 = (s11, e11)"
      "s' = (simulateCANData s11)\<lparr> status := st \<rparr>"
      "st = (status (simulateCANData s11))\<lparr> loopslo := loopslo st, loopshi := loopshi st,
               freeramlo := freeramlo st, freeramhi := freeramhi st, errors := errors st \<rparr>"
    by auto
  let ?th = "simulateThermal s2"
  let ?f = "simulateFuel s5"
  have 0: "egocorrection (status s0) = egocorrection (status s)"
    by (subst a(1)) simp
  have 1: "egocorrection (status s1) = egocorrection (status s0) \<and> egoTrend s1 = egoTrend s0 \<and>
           coolantTemp s1 = coolantTemp s0"
    using updateStateMachine_frame [of s0 e0] a(4) by simp
  have 2: "egocorrection (status s2) = egocorrection (status s1) \<and> egoTrend s2 = egoTrend s1 \<and>
           coolantTemp s2 = coolantTemp s1"
    using simulateRPM_frame [of s1 e1] a(5) by simp
  have 4: "egocorrection (status s4) = egocorrection (status s2) \<and> egoTrend s4 = egoTrend s2 \<and>
           coolantTemp s4 = coolantTemp ?th"
    using simulateThrottle_frame [of ?th e2] simulateThermal_frame [of s2] a(6)
    by simp
  have 5: "egocorrection (status s5) = egocorrection (status s4) \<and> egoTrend s5 = egoTrend s4 \<and>
           coolantTemp s5 = coolantTemp s4"
    using simulateMAP_frame [of s4 e4] a(7) by simp
  have 8: "egocorrection (status s8) = egocorrection (status s5) \<and> egoTrend s8 = egoTrend s5 \<and>
           coolantTemp s8 = coolantTemp s5"
    using simulateAFR_frame [of "simulateIgnition ?f" e5] simulateIgnition_frame [of ?f]
      simulateFuel_frame [of s5] a(8)
    by simp
  have 9: "coolantTemp s9 = coolantTemp s8 \<and> currentMode s9 = currentMode s8"
    using simulateCorrections_frame [of s8 e8] a(9) by simp
  have c9: "s9 = fst (simulateCorrections s8 e8)"
    using a(9) by simp
  have 11: "egocorrection (status s11) = egocorrection (status s9) \<and> egoTrend s11 = egoTrend s9 \<and>
           coolantTemp s11 = coolantTemp s9 \<and> currentMode s11 = currentMode s9"
    using simulateVoltage_frame [of "simulateSensors s9" e9] simulateSensors_frame [of s9] a(10)
    by simp
  have 12: "egocorrection st = egocorrection (status s11)"
    using simulateCANData_frame [of s11] by (subst a(12)) simp
  have 13: "egoTrend s' = egoTrend s11 \<and> coolantTemp s' = coolantTemp s11 \<and>
            currentMode s' = currentMode s11 \<and> status s' = st"
    using simulateCANData_frame [of s11] by (simp add: a(11))
  have pre: "egocorrection (status s8) = egocorrection (status s) \<and> egoTrend s8 = egoTrend s \<and>
             coolantTemp s8 = coolantTemp ?th \<and> coolantTemp s2 = coolantTemp s"
    using 0 1 2 4 5 8 a(2,3) by simp
  have post: "egocorrection (status s') = egocorrection (status s9) \<and> egoTrend s' = egoTrend s9 \<and>
              closed_loop s' = closed_loop s8"
    using 9 11 12 13 by (simp add: closed_loop_def)
  have t: "sint (egoTrend s8) = 1 \<or> sint (egoTrend s8) = - 1"
    using inv pre by (simp add: ego_inv_def)
  have b: "(uint (egocorrection (status s8)) = 0 \<and> \<not> closed_loop s8) \<or>
      (89 \<le> uint (egocorrection (status s8)) \<and> uint (egocorrection (status s8)) \<le> 111 \<and>
       (uint (egocorrection (status s8)) = 111 \<longrightarrow> sint (egoTrend s8) = - 1) \<and>
       (uint (egocorrection (status s8)) = 89 \<longrightarrow> sint (egoTrend s8) = 1))"
  proof (cases "uint (egocorrection (status s)) = 0 \<and> sint (coolantTemp s) = 200")
    case True
    then have "sint (coolantTemp s2) = 200" using pre by simp
    from thermal_from_ambient [OF this] have "\<not> closed_loop s8"
      using pre by (simp add: closed_loop_def)
    with True pre show ?thesis by simp
  next
    case False
    with inv show ?thesis using pre by (auto simp add: ego_inv_def)
  qed
  from corrections_ego_inv [OF t b c9]
  show ?thesis
    using post by (auto simp add: ego_inv_def)
qed

lemma update_rejected: "update s e = (False, s', e') \<Longrightarrow> s' = s"
  using update_chain [of s e False s' e'] by simp

lemma reachable_ego_inv: "reachable s \<Longrightarrow> ego_inv s"
proof (induction rule: reachable.induct)
  case (reachable_initialize e)
  then show ?case
    using initialize_facts [of constructed e]
    by (simp add: ego_inv_def constructed_def)
next
  case (reachable_update s e)
  obtain ok s' e' where u: "update s e = (ok, s', e')" by (metis surj_pair)
  show ?case
  proof (cases ok)
    case True
    with update_ego [OF reachable_update.IH] u show ?thesis by simp
  next
    case False
    with update_rejected u reachable_update.IH show ?thesis by fastforce
  qed
next
  case (reachable_setMode s m e)
  then show ?case using transitionToMode_frame [of m s e] by (simp add: setMode_def ego_inv_def)
qed

lemma update_accepts:
  "\<not> uint (clock e (reads e) - lastUpdateTime s) < UPDATE_INTERVAL_MS \<Longrightarrow> fst (update s e)"
  unfolding update_def millis_def
  by (simp add: Let_def split: prod.splits)

lemma cold_start_accepted:
  "update (fst cold_start) (snd cold_start) = (True, snd (update (fst cold_start) (snd cold_start)))"
proof -
  have "\<not> uint (clock (snd cold_start) (reads (snd cold_start)) - lastUpdateTime (fst cold_start))
          < UPDATE_INTERVAL_MS"
    by (simp add: cold_start_def initialize_def millis_def env_steady_def Let_def
        UPDATE_INTERVAL_MS_def)
  from update_accepts [OF this] show ?thesis
    by (cases "update (fst cold_start) (snd cold_start)") simp
qed

lemma update_corrections:
  assumes u: "update s e = (True, s', e')"
  shows "\<exists>x ex y. egocorrection (status x) = egocorrection (status s) \<and>
           egoTrend x = egoTrend s \<and> coolantTemp y = coolantTemp s \<and>
           coolantTemp x = coolantTemp (simulateThermal y) \<and>
           closed_loop s' = closed_loop x \<and>
           egocorrection (status s') = egocorrection (status (fst (simulateCorrections x ex))) \<and>
           egoTrend s' = egoTrend (fst (simulateCorrections x ex))"
proof -
  from update_chain [OF u] obtain s0 e0 s1 e1 s2 e2 s4 e4 s5 e5 s8 e8 s9 e9 s11 e11 st
    where a: "status s0 = (status s)\<lparr> secl := secl (status s0) \<rparr>"
      "egoTrend s0 = egoTrend s" "coolantTemp s0 = coolantTemp s"
      "updateStateMachine s0 e0 = (s1, e1)" "simulateRPM s1 e1 = (s2, e2)"
      "simulateThrottle (simulateThermal s2) e2 = (s4, e4)"
      "simulateMAP s4 e4 = (s5, e5)"
      "simulateAFR (simulateIgnition (simulateFuel s5)) e5 = (s8, e8)"
      "simulateCorrections s8 e8 = (s9, e9)"
      "simulateVoltage (simulateSensors s9) e9 = (s11, e11)"
      "s' = (simulateCANData s11)\<lparr> status := st \<rparr>"
      "st = (status (simulateCANData s11))\<lparr> loopslo := loopslo st, loopshi := loopshi st,
               freeramlo := freeramlo st, freeramhi := freeramhi st, errors := errors st \<rparr>"
    by auto
  let ?th = "simulateThermal s2"
  let ?f = "simulateFuel s5"
  have 0: "egocorrection (status s0) = egocorrection (status s)"
    by (subst a(1)) simp
  have 1: "egocorrection (status s1) = egocorrection (status s0) \<and> egoTrend s1 = egoTrend s0 \<and>
           coolantTemp s1 = coolantTemp s0"
    using updateStateMachine_frame [of s0 e0] a(4) by simp
  have 2: "egocorrection (status s2) = egocorrection (status s1) \<and> egoTrend s2 = egoTrend s1 \<and>
           coolantTemp s2 = coolantTemp s1"
    using simulateRPM_frame [of s1 e1] a(5) by simp
  have 4: "egocorrection (status s4) = egocorrection (status s2) \<and> egoTrend s4 = egoTrend s2 \<and>
           coolantTemp s4 = coolantTemp ?th"
    using simulateThrottle_frame [of ?th e2] simulateThermal_frame [of s2] a(6)
    by simp
  have 5: "egocorrection (status s5) = egocorrection (status s4) \<and> egoTrend s5 = egoTrend s4 \<and>
           coolantTemp s5 = coolantTemp s4"
    using simulateMAP_frame [of s4 e4] a(7) by simp
  have 8: "egocorrection (status s8) = egocorrection (status s5) \<and> egoTrend s8 = egoTrend s5 \<and>
           coolantTemp s8 = coolantTemp s5"
    using simulateAFR_frame [of "simulateIgnition ?f" e5] simulateIgnition_frame [of ?f]
      simulateFuel_frame [of s5] a(8)
    by simp
  have 9: "coolantTemp s9 = coolantTemp s8 \<and> currentMode s9 = currentMode s8"
    using simulateCorrections_frame [of s8 e8] a(9) by simp
  have c9: "s9 = fst (simulateCorrections s8 e8)"
    using a(9) by simp
  have 11: "egocorrection (status s11) = egocorrection (status s9) \<and> egoTrend s11 = egoTrend s9 \<and>
           coolantTemp s11 = coolantTemp s9 \<and> currentMode s11 = currentMode s9"
    using simulateVoltage_frame [of "simulateSensors s9" e9] simulateSensors_frame [of s9] a(10)
    by simp
  have 12: "egocorrection st = egocorrection (status s11)"
    using simulateCANData_frame [of s11] by (subst a(12)) simp
  have 13: "egoTrend s' = egoTrend s11 \<and> coolantTemp s' = coolantTemp s11 \<and>
            currentMode s' = currentMode s11 \<and> status s' = st"
    using simulateCANData_frame [of s11] by (simp add: a(11))
  have pre: "egocorrection (status s8) = egocorrection (status s) \<and> egoTrend s8 = egoTrend s \<and>
             coolantTemp s8 = coolantTemp ?th \<and> coolantTemp s2 = coolantTemp s"
    using 0 1 2 4 5 8 a(2,3) by simp
  have post: "egocorrection (status s') = egocorrection (status s9) \<and> egoTrend s' = egoTrend s9 \<and>
              closed_loop s' = closed_loop s8"
    using 9 11 12 13 by (simp add: closed_loop_def)
  show ?thesis
    using pre post unfolding c9 by blast
qed


lemma update_ego_effect:
  assumes u: "update s e = (True, s', e')"
  shows "egocorrection (status s') =
     (if closed_loop s' then of_int (uint (egocorrection (status s)) + sint (egoTrend s)) else 100) \<and>
   egoTrend s' =
     (if closed_loop s'
      then (if uint (of_int (uint (egocorrection (status s)) + sint (egoTrend s)) :: 8 word) < 90 then 1
            else if uint (of_int (uint (egocorrection (status s)) + sint (egoTrend s)) :: 8 word) > 110
            then of_int (- 1) else egoTrend s)
      else egoTrend s)"
proof -
  from update_corrections [OF u] obtain x ex where
    x: "egocorrection (status x) = egocorrection (status s)" "egoTrend x = egoTrend s"
       "closed_loop s' = closed_loop x"
       "egocorrection (status s') = egocorrection (status (fst (simulateCorrections x ex)))"
       "egoTrend s' = egoTrend (fst (simulateCorrections x ex))"
    by blast
  show ?thesis
    unfolding x(3,4,5) using simulateCorrections_effect [of x ex] x(1,2) by simp
qed

subsection \<open>The shape of each stage, and the stages on a cranking engine\<close>

lemma simulateThermal_shape:
  "\<exists>c st1 i st2. simulateThermal s =
     s\<lparr> coolantTemp := c, status := st1, intakeTemp := i, status := st2 \<rparr>"
  unfolding simulateThermal_def Let_def
  apply (rule exI)+
  apply (rule refl)
  done

lemma simulateThrottle_shape:
  "\<exists>st lt. simulateThrottle s e =
     (s\<lparr> currentThrottle := of_int (sint (interpolate (of_int (uint (currentThrottle s)))
                                            (of_int (uint (targetThrottle s))) 20)),
         status := st, lastTPS := lt \<rparr>, e\<lparr> draws := Suc (draws e) \<rparr>)"
  unfolding simulateThrottle_def Let_def addNoise_def random_range_def prod.case
  apply (rule exI)+
  apply (rule refl)
  done

lemma simulateMAP_shape:
  "\<exists>st. simulateMAP s e = (s\<lparr> status := st \<rparr>, e\<lparr> draws := Suc (draws e) \<rparr>)"
  unfolding simulateMAP_def Let_def addNoise_def random_range_def prod.case
  apply (rule exI)+
  apply (rule refl)
  done

lemma simulateFuel_shape:
  "\<exists>a p1 p2 b c. simulateFuel s =
     s\<lparr> status := a, pulseWidth := p1, pulseWidth := p2, status := b, status := c \<rparr>"
  unfolding simulateFuel_def Let_def
  apply (rule exI)+
  apply (rule refl)
  done

lemma simulateIgnition_shape: "\<exists>st. simulateIgnition s = s\<lparr> status := st \<rparr>"
  unfolding simulateIgnition_def Let_def
  apply (rule exI)+
  apply (rule refl)
  done

lemma simulateAFR_shape:
  "\<exists>st d1 d2. simulateAFR s e = (s\<lparr> status := st \<rparr>, e\<lparr> draws := d1, draws := d2 \<rparr>)"
  unfolding simulateAFR_def Let_def addNoise_def random_range_def prod.case
  apply (rule exI)+
  apply (rule refl)
  done

lemma simulateSensors_shape: "\<exists>st. simulateSensors s = s\<lparr> status := st \<rparr>"
  unfolding simulateSensors_def Let_def
  apply (rule exI)+
  apply (rule refl)
  done

lemma simulateVoltage_shape:
  "\<exists>st. simulateVoltage s e = (s\<lparr> status := st \<rparr>, e\<lparr> draws := Suc (draws e) \<rparr>)"
  unfolding simulateVoltage_def Let_def addNoise_def random_range_def prod.case
  apply (rule exI)+
  apply (rule refl)
  done


lemma simulateCorrections_shape:
  "\<exists>st t d. simulateCorrections s e = (s\<lparr> status := st, egoTrend := t \<rparr>, e\<lparr> draws := d \<rparr>)"
proof -
  define sa where "sa = s\<lparr> status := (status s)\<lparr> egocorrection :=
                              of_int (uint (egocorrection (status s)) + sint (egoTrend s)) \<rparr> \<rparr>"
  define sb where "sb = (if uint (egocorrection (status sa)) > 110
                          then sa\<lparr> egoTrend := of_int (- 1) \<rparr> else sa)"
  define sc where "sc = (if uint (egocorrection (status sb)) < 90
                          then sb\<lparr> egoTrend := 1 \<rparr> else sb)"
  define s1 where "s1 = (if sint (coolantTemp s) > 500 \<and> currentMode s \<noteq> WOT then sc
               else s\<lparr> status := (status s)\<lparr> egocorrection := 100 \<rparr> \<rparr>)"
  define iatCelsius :: "16 word" where "iatCelsius = of_int (sint (intakeTemp s1) sdiv 10)"
  define st0 where "st0 = status s1"
  define st1 where "st1 = (if sint iatCelsius < 0 then st0\<lparr> iatcorrection := 110 \<rparr>
                else if sint iatCelsius < 10 then st0\<lparr> iatcorrection := 105 \<rparr>
                else st0\<lparr> iatcorrection := 100 \<rparr>)"
  define st2 where "st2 = (if uint (batteryv st1) < 12 then st1\<lparr> batcorrection := 105 \<rparr>
                else st1\<lparr> batcorrection := 100 \<rparr>)"
  define st3 where "st3 = st2\<lparr> ethanolpct := 0, flexcorrection := 100, flexigncorrection := 0 \<rparr>"
  define il where "il = (if currentMode s1 = IDLE
               then (case random_range (-5) 5 e of (r, e) \<Rightarrow> (of_int (30 + r) :: 8 word, e))
               else (0, e))"
  have eq: "simulateCorrections s e =
      (case il of (il, e) \<Rightarrow> (s1\<lparr> status := st3\<lparr> idleload := il, boosttarget := 0, boostduty := 0 \<rparr> \<rparr>, e))"
    unfolding simulateCorrections_def Let_def il_def st3_def st2_def st1_def st0_def
      iatCelsius_def s1_def sc_def sb_def sa_def
    by (rule refl)
  have 1: "s1 = s\<lparr> status := status s1, egoTrend := egoTrend s1 \<rparr>"
    by (simp add: s1_def sc_def sb_def sa_def)
  have 2: "snd il = e\<lparr> draws := draws (snd il) \<rparr>"
    by (simp add: il_def random_range_def)
  have "simulateCorrections s e =
      (s1\<lparr> status := st3\<lparr> idleload := fst il, boosttarget := 0, boostduty := 0 \<rparr> \<rparr>, snd il)"
    by (simp add: eq case_prod_beta)
  also have "s1\<lparr> status := st3\<lparr> idleload := fst il, boosttarget := 0, boostduty := 0 \<rparr> \<rparr> =
      s\<lparr> status := st3\<lparr> idleload := fst il, boosttarget := 0, boostduty := 0 \<rparr>,
         egoTrend := egoTrend s1 \<rparr>"
    by (subst 1) simp
  finally show ?thesis using 2 by metis
qed


lemma updateStateMachine_cranking:
  "currentMode s = STARTUP \<Longrightarrow> currentRPM s = 0 \<Longrightarrow>
   updateStateMachine s e = (s, e\<lparr> reads := Suc (reads e) \<rparr>)"
  by (simp add: updateStateMachine_def millis_def Let_def RPM_IDLE_MIN_def)

lemma simulateRPM_cranking:
  "currentMode s = STARTUP \<Longrightarrow> currentRPM s = 0 \<Longrightarrow> rpmAcceleration s = 0 \<Longrightarrow>
   targetRPM s = 900 \<Longrightarrow> currentRPM (fst (simulateRPM s e)) = 0"
  by (simp add: simulateRPM_def Let_def RPM_MIN_def RPM_MAX_def UPDATE_INTERVAL_MS_def)


lemma simulateMAP_cranking:
  "rng e = (\<lambda>k. 0) \<Longrightarrow> currentThrottle s = 2 \<Longrightarrow> currentRPM s = 0 \<Longrightarrow>
   getMAP (status (fst (simulateMAP s e))) = 100"
  by (simp add: simulateMAP_def Let_def addNoise_def random_range_def setMAP_def getMAP_def
      MAP_IDLE_def RPM_IDLE_MIN_def RPM_HIGH_START_def MAP_ATMOSPHERIC_def)


lemma interpolate_throttle_idle:
  "(of_int (sint (interpolate (of_int (uint (2 :: 8 word))) (of_int (uint (2 :: 8 word))) 20)) :: 8 word) = 2"
  by (simp add: interpolate_def Let_def)

lemma simulateFuel_pulseWidth:
  "pulseWidth (simulateFuel s) =
     of_int ((uint (calculateRequiredPulseWidth (currentRPM s) (getMAP (status s))
                      (calculateVE (currentRPM s) (currentThrottle s)))
              * uint (getWarmupEnrichment (coolantTemp s))) sdiv 100)"
  by (simp add: simulateFuel_def Let_def getMAP_def)

lemma cold_fuel_value:
  "(of_int ((uint (calculateRequiredPulseWidth 0 100 (calculateVE 0 2))
              * uint (getWarmupEnrichment (interpolate 200 800 5))) sdiv 100) :: 16 word) = 306"
  by (simp add: calculateRequiredPulseWidth_def calculateVE_def getWarmupEnrichment_def
      interpolate_def Let_def PW_MIN_def PW_MAX_def)

lemma update_chain_full:
  assumes gate: "\<not> uint (clock e (reads e) - lastUpdateTime s) < UPDATE_INTERVAL_MS"
  shows "\<exists>s0 s1 e1 s2 e2 s4 e4 s5 e5 s8 e8 s9 e9 s11 e11 st d.
        s0 = s\<lparr> lastUpdateTime := clock e (reads e), loopCounter := loopCounter s + 1,
                secondCounter := secondCounter s0,
                status := (status s)\<lparr> secl := secl (status s0) \<rparr> \<rparr> \<and>
        updateStateMachine s0 (e\<lparr> reads := Suc (reads e) \<rparr>) = (s1, e1) \<and>
        simulateRPM s1 e1 = (s2, e2) \<and>
        simulateThrottle (simulateThermal s2) e2 = (s4, e4) \<and>
        simulateMAP s4 e4 = (s5, e5) \<and>
        simulateAFR (simulateIgnition (simulateFuel s5)) e5 = (s8, e8) \<and>
        simulateCorrections s8 e8 = (s9, e9) \<and>
        simulateVoltage (simulateSensors s9) e9 = (s11, e11) \<and>
        update s e = (True, (simulateCANData s11)\<lparr> status := st \<rparr>, e11\<lparr> draws := d \<rparr>) \<and>
        st = (status (simulateCANData s11))\<lparr> loopslo := loopslo st, loopshi := loopshi st,
               freeramlo := freeramlo st, freeramhi := freeramhi st, errors := errors st \<rparr>"
proof -
  define t where "t = clock e (reads e)"
  define e0 where "e0 = e\<lparr> reads := Suc (reads e) \<rparr>"
  define sa where "sa = s\<lparr> lastUpdateTime := t, loopCounter := loopCounter s + 1 \<rparr>"
  define s0 where "s0 = (if uint (loopCounter sa) mod 20 = 0
      then sa\<lparr> secondCounter := secondCounter sa + 1,
               status := (status sa)\<lparr> secl := of_int (uint (secondCounter sa + 1) AND 255) \<rparr> \<rparr>
      else sa)"
  obtain s1 e1 where 1: "updateStateMachine s0 e0 = (s1, e1)" by (meson surj_pair)
  obtain s2 e2 where 2: "simulateRPM s1 e1 = (s2, e2)" by (meson surj_pair)
  obtain s4 e4 where 4: "simulateThrottle (simulateThermal s2) e2 = (s4, e4)" by (meson surj_pair)
  obtain s5 e5 where 5: "simulateMAP s4 e4 = (s5, e5)" by (meson surj_pair)
  obtain s8 e8 where 8: "simulateAFR (simulateIgnition (simulateFuel s5)) e5 = (s8, e8)"
    by (meson surj_pair)
  obtain s9 e9 where 9: "simulateCorrections s8 e8 = (s9, e9)" by (meson surj_pair)
  obtain s11 e11 where 11: "simulateVoltage (simulateSensors s9) e9 = (s11, e11)"
    by (meson surj_pair)
  define ST where "ST err = (status (simulateCANData s11))\<lparr>
             loopslo := of_int (uint (of_int (uint (loopCounter (simulateCANData s11)) AND 65535) :: 16 word) AND 255),
             loopshi := of_int (drop_bit 8 (uint (of_int (uint (loopCounter (simulateCANData s11)) AND 65535) :: 16 word)) AND 255),
             freeramlo := of_int (8192 AND 255), freeramhi := of_int (drop_bit 8 8192 AND 255),
             errors := of_int err \<rparr>" for err :: int
  define F where "F = (case random_upto 100 e11 of (r, e) \<Rightarrow>
       (if r < 2 then random_range 1 4 e else (0, e)))"
  have pre: "s0 = s\<lparr> lastUpdateTime := clock e (reads e), loopCounter := loopCounter s + 1,
                secondCounter := secondCounter s0,
                status := (status s)\<lparr> secl := secl (status s0) \<rparr> \<rparr>"
    by (simp add: s0_def sa_def t_def)
  have H: "update s e =
      (case updateStateMachine s0 e0 of (s, e) \<Rightarrow>
       case simulateRPM s e of (s, e) \<Rightarrow>
       case simulateThrottle (simulateThermal s) e of (s, e) \<Rightarrow>
       case simulateMAP s e of (s, e) \<Rightarrow>
       case simulateAFR (simulateIgnition (simulateFuel s)) e of (s, e) \<Rightarrow>
       case simulateCorrections s e of (s, e) \<Rightarrow>
       case simulateVoltage (simulateSensors s) e of (s, e) \<Rightarrow>
       case random_upto 100 e of (r, e) \<Rightarrow>
       case (if r < 2 then random_range 1 4 e else (0, e)) of (err, e) \<Rightarrow>
         (True, (simulateCANData s)\<lparr> status := (status (simulateCANData s))\<lparr>
             loopslo := of_int (uint (of_int (uint (loopCounter (simulateCANData s)) AND 65535) :: 16 word) AND 255),
             loopshi := of_int (drop_bit 8 (uint (of_int (uint (loopCounter (simulateCANData s)) AND 65535) :: 16 word)) AND 255),
             freeramlo := of_int (8192 AND 255), freeramhi := of_int (drop_bit 8 8192 AND 255),
             errors := of_int err \<rparr> \<rparr>, e))"
    using gate unfolding update_def millis_def t_def e0_def s0_def sa_def Let_def
    by simp
  have U: "update s e = (True, (simulateCANData s11)\<lparr> status := ST (fst F) \<rparr>, snd F)"
    unfolding H 1 2 4 5 8 9 11 prod.case F_def ST_def
    by (simp add: case_prod_beta)
  have d: "snd F = e11\<lparr> draws := draws (snd F) \<rparr>"
    by (simp add: F_def random_upto_def random_range_def)
  have st: "ST (fst F) = (status (simulateCANData s11))\<lparr> loopslo := loopslo (ST (fst F)),
               loopshi := loopshi (ST (fst F)), freeramlo := freeramlo (ST (fst F)),
               freeramhi := freeramhi (ST (fst F)), errors := errors (ST (fst F)) \<rparr>"
    by (simp add: ST_def)
  from U have U': "update s e = (True, (simulateCANData s11)\<lparr> status := ST (fst F) \<rparr>,
                                 e11\<lparr> draws := draws (snd F) \<rparr>)"
    using d by simp
  from pre 1 2 4 5 8 9 11 U' st show ?thesis
    unfolding e0_def by blast
qed

subsection \<open>A tick of a cranking engine\<close>

lemma cranking_tick:
  assumes c: "cranking s"
    and gate: "\<not> uint (clock e (reads e) - lastUpdateTime s) < UPDATE_INTERVAL_MS"
  shows "\<exists>s' e'. update s e = (True, s', e') \<and> cranking s' \<and>
     targetThrottle s' = targetThrottle s \<and>
     currentThrottle s' = of_int (sint (interpolate (of_int (uint (currentThrottle s)))
                                            (of_int (uint (targetThrottle s))) 20)) \<and>
     lastUpdateTime s' = clock e (reads e) \<and> reads e' = Suc (Suc (reads e)) \<and>
     clock e' = clock e \<and> rng e' = rng e \<and>
     coolantTemp s' = interpolate (coolantTemp s) 800 5 \<and>
     (rng e = (\<lambda>k. 0) \<longrightarrow> currentThrottle s = 2 \<longrightarrow> targetThrottle s = 2 \<longrightarrow>
        pulseWidth s' = of_int ((uint (calculateRequiredPulseWidth 0 100 (calculateVE 0 2))
              * uint (getWarmupEnrichment (coolantTemp s'))) sdiv 100))"
proof -
  from c have c': "currentMode s = STARTUP" "currentRPM s = 0" "rpmAcceleration s = 0"
    "targetRPM s = 900"
    by (simp_all add: cranking_def)
  from update_chain_full [OF gate] obtain s0 s1 e1 s2 e2 s4 e4 s5 e5 s8 e8 s9 e9 s11 e11 st d
    where p: "s0 = s\<lparr> lastUpdateTime := clock e (reads e), loopCounter := loopCounter s + 1,
                secondCounter := secondCounter s0,
                status := (status s)\<lparr> secl := secl (status s0) \<rparr> \<rparr>"
      and 1: "updateStateMachine s0 (e\<lparr> reads := Suc (reads e) \<rparr>) = (s1, e1)"
      and 2: "simulateRPM s1 e1 = (s2, e2)"
      and 4: "simulateThrottle (simulateThermal s2) e2 = (s4, e4)"
      and 5: "simulateMAP s4 e4 = (s5, e5)"
      and 8: "simulateAFR (simulateIgnition (simulateFuel s5)) e5 = (s8, e8)"
      and 9: "simulateCorrections s8 e8 = (s9, e9)"
      and 11: "simulateVoltage (simulateSensors s9) e9 = (s11, e11)"
      and U: "update s e = (True, (simulateCANData s11)\<lparr> status := st \<rparr>, e11\<lparr> draws := d \<rparr>)"
    by blast
  have m0: "currentMode s0 = STARTUP \<and> currentRPM s0 = 0 \<and> rpmAcceleration s0 = 0 \<and>
            targetRPM s0 = 900 \<and> targetThrottle s0 = targetThrottle s \<and>
            currentThrottle s0 = currentThrottle s \<and> coolantTemp s0 = coolantTemp s \<and>
            lastUpdateTime s0 = clock e (reads e)"
    by (subst (1 2 3 4 5 6 7 8) p) (simp add: c')
  have q1: "s1 = s0 \<and> e1 = e\<lparr> reads := Suc (Suc (reads e)) \<rparr>"
    using updateStateMachine_cranking [of s0 "e\<lparr> reads := Suc (reads e) \<rparr>"] m0 1 by simp
  obtain r d2 where q2: "s2 = s0\<lparr> currentRPM := r,
        status := setRPMDot (rpmAcceleration s0) (setRPM r (status s0)) \<rparr>"
      "e2 = e1\<lparr> draws := d2 \<rparr>"
    using simulateRPM_shape [of s1 e1] 2 q1 by auto
  have "currentRPM (fst (simulateRPM s0 e1)) = 0"
    using simulateRPM_cranking [of s0 e1] m0 by simp
  then have r0: "r = 0" using 2 q1 q2(1) by simp
  define th where "th = simulateThermal s2"
  define f where "f = simulateFuel s5"
  define ig where "ig = simulateIgnition f"
  define sn where "sn = simulateSensors s9"
  define cd where "cd = simulateCANData s11"
  obtain tc st1 ti st2 where q3: "th = s2\<lparr> coolantTemp := tc, status := st1, intakeTemp := ti,
        status := st2 \<rparr>"
    unfolding th_def using simulateThermal_shape [of s2] by blast
  have tcv: "coolantTemp th = interpolate (coolantTemp s) 800 5"
    unfolding th_def using m0 by (simp add: simulateThermal_coolant q2 TEMP_ENGINE_WARM_def)
  obtain st4 lt4 where q4: "s4 = th\<lparr> currentThrottle :=
        of_int (sint (interpolate (of_int (uint (currentThrottle th)))
                                  (of_int (uint (targetThrottle th))) 20)),
        status := st4, lastTPS := lt4 \<rparr>" "e4 = e2\<lparr> draws := Suc (draws e2) \<rparr>"
    using simulateThrottle_shape [of th e2] 4 [folded th_def] by auto
  obtain st5 where q5: "s5 = s4\<lparr> status := st5 \<rparr>" "e5 = e4\<lparr> draws := Suc (draws e4) \<rparr>"
    using simulateMAP_shape [of s4 e4] 5 by auto
  obtain fa fp1 fp2 fb fc where q6: "f = s5\<lparr> status := fa, pulseWidth := fp1, pulseWidth := fp2,
        status := fb, status := fc \<rparr>"
    unfolding f_def using simulateFuel_shape [of s5] by blast
  obtain st7 where q7: "ig = f\<lparr> status := st7 \<rparr>"
    unfolding ig_def using simulateIgnition_shape [of f] by blast
  obtain st8 d8 d8' where q8: "s8 = ig\<lparr> status := st8 \<rparr>"
      "e8 = e5\<lparr> draws := d8, draws := d8' \<rparr>"
    using simulateAFR_shape [of ig e5] 8 [folded f_def, folded ig_def] by auto
  obtain st9 t9 d9 where q9: "s9 = s8\<lparr> status := st9, egoTrend := t9 \<rparr>" "e9 = e8\<lparr> draws := d9 \<rparr>"
    using simulateCorrections_shape [of s8 e8] 9 by auto
  obtain st10 where q10: "sn = s9\<lparr> status := st10 \<rparr>"
    unfolding sn_def using simulateSensors_shape [of s9] by blast
  obtain st11 where q11: "s11 = sn\<lparr> status := st11 \<rparr>"
      "e11 = e9\<lparr> draws := Suc (draws e9) \<rparr>"
    using simulateVoltage_shape [of sn e9] 11 [folded sn_def] by auto
  obtain cn where q12: "cd = s11\<lparr> status := (status s11)\<lparr> canin := cn \<rparr> \<rparr>"
    unfolding cd_def using simulateCANData_shape [of s11] by blast
  let ?s' = "cd\<lparr> status := st \<rparr>"
  let ?e' = "e11\<lparr> draws := d \<rparr>"
  note U' = U [folded cd_def]
  have env: "reads ?e' = Suc (Suc (reads e)) \<and> clock ?e' = clock e \<and> rng ?e' = rng e"
    by (simp add: q11 q9 q8 q5 q4 q2 q1)
  have env4: "rng e4 = rng e"
    by (simp add: q4 q2 q1)
  have s5f: "currentRPM s5 = 0 \<and> currentThrottle s5 = currentThrottle s4 \<and>
             coolantTemp s5 = interpolate (coolantTemp s) 800 5 \<and> currentRPM s4 = 0 \<and>
             currentThrottle s4 = of_int (sint (interpolate (of_int (uint (currentThrottle s)))
                                            (of_int (uint (targetThrottle s))) 20))"
    using tcv m0 by (simp add: q5 q4 q3 q2 r0)
  have up: "pulseWidth ?s' = pulseWidth f"
    by (simp add: q12 q11 q10 q9 q8 q7)
  have st': "currentMode ?s' = STARTUP \<and> currentRPM ?s' = 0 \<and> rpmAcceleration ?s' = 0 \<and>
     targetRPM ?s' = 900 \<and> targetThrottle ?s' = targetThrottle s \<and>
     currentThrottle ?s' = currentThrottle s4 \<and> lastUpdateTime ?s' = clock e (reads e) \<and>
     coolantTemp ?s' = coolantTemp s5"
    using m0 by (simp add: q12 q11 q10 q9 q8 q7 q6 q5 q4 q3 q2 r0)
  have pw: "pulseWidth ?s' = of_int ((uint (calculateRequiredPulseWidth 0 100 (calculateVE 0 2))
              * uint (getWarmupEnrichment (coolantTemp ?s'))) sdiv 100)"
    if h: "rng e = (\<lambda>k. 0)" "currentThrottle s = 2" "targetThrottle s = 2"
  proof -
    have ct4: "currentThrottle s4 = 2"
      using s5f h interpolate_throttle_idle by simp
    have "getMAP (status (fst (simulateMAP s4 e4))) = 100"
      using simulateMAP_cranking [of e4 s4] env4 h(1) ct4 s5f by simp
    then have "getMAP (status s5) = 100" using 5 by simp
    then show ?thesis
      using s5f ct4 st' by (simp add: up f_def simulateFuel_pulseWidth)
  qed
  show ?thesis
    using U' st' env s5f pw by (intro exI [of _ ?s'] exI [of _ ?e']) (simp add: cranking_def)
qed

subsection \<open>The cold engine, tick by tick\<close>

lemma on_time_gate:
  assumes "on_time s e"
  shows "\<not> uint (clock e (reads e) - lastUpdateTime s) < UPDATE_INTERVAL_MS"
proof -
  from assms have c: "clock e (reads e) = of_nat (50 * reads e)"
    by (simp add: on_time_def)
  from assms consider
    (one) "1 \<le> reads e" "lastUpdateTime s = of_nat (50 * (reads e - 1))"
    | (two) "2 \<le> reads e" "lastUpdateTime s = of_nat (50 * (reads e - 2))"
    by (auto simp add: on_time_def)
  then show ?thesis
  proof cases
    case one
    then have "50 * reads e = 50 * (reads e - 1) + 50" by simp
    then have "(of_nat (50 * reads e) :: 32 word) = of_nat (50 * (reads e - 1)) + 50"
      by (metis of_nat_add of_nat_numeral)
    then have "clock e (reads e) - lastUpdateTime s = 50"
      by (simp add: c one(2))
    then show ?thesis by (simp add: UPDATE_INTERVAL_MS_def)
  next
    case two
    then have "50 * reads e = 50 * (reads e - 2) + 100" by simp
    then have "(of_nat (50 * reads e) :: 32 word) = of_nat (50 * (reads e - 2)) + 100"
      by (metis of_nat_add of_nat_numeral)
    then have "clock e (reads e) - lastUpdateTime s = 100"
      by (simp add: c two(2))
    then show ?thesis by (simp add: UPDATE_INTERVAL_MS_def)
  qed
qed


lemma ticks_reachable: "reachable (fst p) \<Longrightarrow> reachable (fst (ticks n p))"
  by (induction n) (simp_all add: reachable_update)

lemma cranking_closed_loop: "cranking s \<Longrightarrow> closed_loop s \<longleftrightarrow> sint (coolantTemp s) > 500"
  by (simp add: cranking_def closed_loop_def)

lemma ticks_cranking:
  assumes "cranking (fst p)" and "on_time (fst p) (snd p)"
  shows "cranking (fst (ticks n p)) \<and> on_time (fst (ticks n p)) (snd (ticks n p)) \<and>
         rng (snd (ticks n p)) = rng (snd p) \<and>
         targetThrottle (fst (ticks n p)) = targetThrottle (fst p) \<and>
         (coolantTemp (fst (ticks n p)), egocorrection (status (fst (ticks n p))),
          egoTrend (fst (ticks n p))) =
           cranking_steps n (coolantTemp (fst p), egocorrection (status (fst p)), egoTrend (fst p))"
proof (induction n)
  case 0
  show ?case using assms by simp
next
  case (Suc n)
  let ?s = "fst (ticks n p)" and ?e = "snd (ticks n p)"
  from Suc have c: "cranking ?s" and o: "on_time ?s ?e" and r: "rng ?e = rng (snd p)"
    and tt: "targetThrottle ?s = targetThrottle (fst p)"
    and ab: "(coolantTemp ?s, egocorrection (status ?s), egoTrend ?s) =
           cranking_steps n (coolantTemp (fst p), egocorrection (status (fst p)), egoTrend (fst p))"
    by simp_all
  from cranking_tick [OF c on_time_gate [OF o]] obtain s' e' where
    u: "update ?s ?e = (True, s', e')" and c': "cranking s'"
    and f: "targetThrottle s' = targetThrottle ?s" "lastUpdateTime s' = clock ?e (reads ?e)"
      "reads e' = Suc (Suc (reads ?e))" "clock e' = clock ?e" "rng e' = rng ?e"
      "coolantTemp s' = interpolate (coolantTemp ?s) 800 5"
    by blast
  have t: "ticks (Suc n) p = (s', e')" using u by simp
  have o': "on_time s' e'"
    using o f by (simp add: on_time_def)
  from update_ego_effect [OF u] cranking_closed_loop [OF c'] f(6)
  have "(coolantTemp s', egocorrection (status s'), egoTrend s') =
        cranking_step (coolantTemp ?s, egocorrection (status ?s), egoTrend ?s)"
    by (simp add: cranking_step_def Let_def)
  with ab have "(coolantTemp s', egocorrection (status s'), egoTrend s') =
     cranking_steps (Suc n) (coolantTemp (fst p), egocorrection (status (fst p)), egoTrend (fst p))"
    by simp
  with c' o' f r tt show ?case unfolding t by simp
qed


lemma cold_start_facts:
  "cranking (fst cold_start) \<and> on_time (fst cold_start) (snd cold_start) \<and>
   rng (snd cold_start) = (\<lambda>k. 0) \<and> currentThrottle (fst cold_start) = 2 \<and>
   targetThrottle (fst cold_start) = 2 \<and> coolantTemp (fst cold_start) = 200 \<and>
   egocorrection (status (fst cold_start)) = 0 \<and> egoTrend (fst cold_start) = 1 \<and>
   reachable (fst cold_start)"
proof -
  have "reachable (fst cold_start)"
    unfolding cold_start_def by (rule reachable_initialize)
  moreover have "cranking (fst cold_start) \<and> on_time (fst cold_start) (snd cold_start) \<and>
   rng (snd cold_start) = (\<lambda>k. 0) \<and> currentThrottle (fst cold_start) = 2 \<and>
   targetThrottle (fst cold_start) = 2 \<and> coolantTemp (fst cold_start) = 200 \<and>
   egocorrection (status (fst cold_start)) = 0 \<and> egoTrend (fst cold_start) = 1"
    by (simp add: cold_start_def initialize_def millis_def Let_def constructed_def env_steady_def
        cranking_def on_time_def zero_status_def setRPM_def setMAP_def setCoolantTemp_def
        setIntakeTemp_def RPM_IDLE_MIN_def TEMP_AMBIENT_def TPS_IDLE_def)
  ultimately show ?thesis by simp
qed


lemma cranking_steps_next:
  "cranking_steps n x = v \<Longrightarrow> cranking_step v = w \<Longrightarrow> m = Suc n \<Longrightarrow> cranking_steps m x = w"
  by simp

lemma cranking_steps_24: "cranking_steps 24 (200, 0, 1) = (619, 111, - 1)"
proof -
  have k0: "cranking_steps 0 (200, 0, 1) = (200, 0, 1)" by simp
  have e1: "cranking_step (200, 0, 1) = (230, 100, 1)"
    by (simp add: cranking_step_def interpolate_def Let_def)
  have k1: "cranking_steps 1 (200, 0, 1) = (230, 100, 1)"
    by (rule cranking_steps_next [OF k0 e1]) simp
  have e2: "cranking_step (230, 100, 1) = (258, 100, 1)"
    by (simp add: cranking_step_def interpolate_def Let_def)
  have k2: "cranking_steps 2 (200, 0, 1) = (258, 100, 1)"
    by (rule cranking_steps_next [OF k1 e2]) simp
  have e3: "cranking_step (258, 100, 1) = (285, 100, 1)"
    by (simp add: cranking_step_def interpolate_def Let_def)
  have k3: "cranking_steps 3 (200, 0, 1) = (285, 100, 1)"
    by (rule cranking_steps_next [OF k2 e3]) simp
  have e4: "cranking_step (285, 100, 1) = (310, 100, 1)"
    by (simp add: cranking_step_def interpolate_def Let_def)
  have k4: "cranking_steps 4 (200, 0, 1) = (310, 100, 1)"
    by (rule cranking_steps_next [OF k3 e4]) simp
  have e5: "cranking_step (310, 100, 1) = (334, 100, 1)"
    by (simp add: cranking_step_def interpolate_def Let_def)
  have k5: "cranking_steps 5 (200, 0, 1) = (334, 100, 1)"
    by (rule cranking_steps_next [OF k4 e5]) simp
  have e6: "cranking_step (334, 100, 1) = (357, 100, 1)"
    by (simp add: cranking_step_def interpolate_def Let_def)
  have k6: "cranking_steps 6 (200, 0, 1) = (357, 100, 1)"
    by (rule cranking_steps_next [OF k5 e6]) simp
  have e7: "cranking_step (357, 100, 1) = (379, 100, 1)"
    by (simp add: cranking_step_def interpolate_def Let_def)
  have k7: "cranking_steps 7 (200, 0, 1) = (379, 100, 1)"
    by (rule cranking_steps_next [OF k6 e7]) simp
  have e8: "cranking_step (379, 100, 1) = (400, 100, 1)"
    by (simp add: cranking_step_def interpolate_def Let_def)
  have k8: "cranking_steps 8 (200, 0, 1) = (400, 100, 1)"
    by (rule cranking_steps_next [OF k7 e8]) simp
  have e9: "cranking_step (400, 100, 1) = (420, 100, 1)"
    by (simp add: cranking_step_def interpolate_def Let_def)
  have k9: "cranking_steps 9 (200, 0, 1) = (420, 100, 1)"
    by (rule cranking_steps_next [OF k8 e9]) simp
  have e10: "cranking_step (420, 100, 1) = (439, 100, 1)"
    by (simp add: cranking_step_def interpolate_def Let_def)
  have k10: "cranking_steps 10 (200, 0, 1) = (439, 100, 1)"
    by (rule cranking_steps_next [OF k9 e10]) simp
  have e11: "cranking_step (439, 100, 1) = (457, 100, 1)"
    by (simp add: cranking_step_def interpolate_def Let_def)
  have k11: "cranking_steps 11 (200, 0, 1) = (457, 100, 1)"
    by (rule cranking_steps_next [OF k10 e11]) simp
  have e12: "cranking_step (457, 100, 1) = (474, 100, 1)"
    by (simp add: cranking_step_def interpolate_def Let_def)
  have k12: "cranking_steps 12 (200, 0, 1) = (474, 100, 1)"
    by (rule cranking_steps_next [OF k11 e12]) simp
  have e13: "cranking_step (474, 100, 1) = (490, 100, 1)"
    by (simp add: cranking_step_def interpolate_def Let_def)
  have k13: "cranking_steps 13 (200, 0, 1) = (490, 100, 1)"
    by (rule cranking_steps_next [OF k12 e13]) simp
  have e14: "cranking_step (490, 100, 1) = (505, 101, 1)"
    by (simp add: cranking_step_def interpolate_def Let_def)
  have k14: "cranking_steps 14 (200, 0, 1) = (505, 101, 1)"
    by (rule cranking_steps_next [OF k13 e14]) simp
  have e15: "cranking_step (505, 101, 1) = (519, 102, 1)"
    by (simp add: cranking_step_def interpolate_def Let_def)
  have k15: "cranking_steps 15 (200, 0, 1) = (519, 102, 1)"
    by (rule cranking_steps_next [OF k14 e15]) simp
  have e16: "cranking_step (519, 102, 1) = (533, 103, 1)"
    by (simp add: cranking_step_def interpolate_def Let_def)
  have k16: "cranking_steps 16 (200, 0, 1) = (533, 103, 1)"
    by (rule cranking_steps_next [OF k15 e16]) simp
  have e17: "cranking_step (533, 103, 1) = (546, 104, 1)"
    by (simp add: cranking_step_def interpolate_def Let_def)
  have k17: "cranking_steps 17 (200, 0, 1) = (546, 104, 1)"
    by (rule cranking_steps_next [OF k16 e17]) simp
  have e18: "cranking_step (546, 104, 1) = (558, 105, 1)"
    by (simp add: cranking_step_def interpolate_def Let_def)
  have k18: "cranking_steps 18 (200, 0, 1) = (558, 105, 1)"
    by (rule cranking_steps_next [OF k17 e18]) simp
  have e19: "cranking_step (558, 105, 1) = (570, 106, 1)"
    by (simp add: cranking_step_def interpolate_def Let_def)
  have k19: "cranking_steps 19 (200, 0, 1) = (570, 106, 1)"
    by (rule cranking_steps_next [OF k18 e19]) simp
  have e20: "cranking_step (570, 106, 1) = (581, 107, 1)"
    by (simp add: cranking_step_def interpolate_def Let_def)
  have k20: "cranking_steps 20 (200, 0, 1) = (581, 107, 1)"
    by (rule cranking_steps_next [OF k19 e20]) simp
  have e21: "cranking_step (581, 107, 1) = (591, 108, 1)"
    by (simp add: cranking_step_def interpolate_def Let_def)
  have k21: "cranking_steps 21 (200, 0, 1) = (591, 108, 1)"
    by (rule cranking_steps_next [OF k20 e21]) simp
  have e22: "cranking_step (591, 108, 1) = (601, 109, 1)"
    by (simp add: cranking_step_def interpolate_def Let_def)
  have k22: "cranking_steps 22 (200, 0, 1) = (601, 109, 1)"
    by (rule cranking_steps_next [OF k21 e22]) simp
  have e23: "cranking_step (601, 109, 1) = (610, 110, 1)"
    by (simp add: cranking_step_def interpolate_def Let_def)
  have k23: "cranking_steps 23 (200, 0, 1) = (610, 110, 1)"
    by (rule cranking_steps_next [OF k22 e23]) simp
  have e24: "cranking_step (610, 110, 1) = (619, 111, - 1)"
    by (simp add: cranking_step_def interpolate_def Let_def)
  have k24: "cranking_steps 24 (200, 0, 1) = (619, 111, - 1)"
    by (rule cranking_steps_next [OF k23 e24]) simp
  from k24 show ?thesis .
qed


lemma ticks_accepted:
  assumes "cranking (fst p)" and "on_time (fst p) (snd p)"
  shows "update (fst (ticks n p)) (snd (ticks n p)) = (True, ticks (Suc n) p)"
proof -
  from ticks_cranking [OF assms, of n]
  have c: "cranking (fst (ticks n p))" and o: "on_time (fst (ticks n p)) (snd (ticks n p))"
    by simp_all
  from cranking_tick [OF c on_time_gate [OF o]] show ?thesis by auto
qed

lemma cold_run_24:
  "reachable (fst (ticks 23 cold_start)) \<and>
   update (fst (ticks 23 cold_start)) (snd (ticks 23 cold_start)) = (True, ticks 24 cold_start) \<and>
   closed_loop (fst (ticks 24 cold_start)) \<and>
   egocorrection (status (fst (ticks 24 cold_start))) = 111"
proof -
  note cs = cold_start_facts
  have r: "reachable (fst (ticks 23 cold_start))"
    using ticks_reachable cs by blast
  have a: "update (fst (ticks 23 cold_start)) (snd (ticks 23 cold_start)) = (True, ticks 24 cold_start)"
    using ticks_accepted [of cold_start 23] cs by simp
  from ticks_cranking [of cold_start 24] cs
  have c: "cranking (fst (ticks 24 cold_start))"
    and v: "(coolantTemp (fst (ticks 24 cold_start)),
             egocorrection (status (fst (ticks 24 cold_start))),
             egoTrend (fst (ticks 24 cold_start))) = cranking_steps 24 (200, 0, 1)"
    by simp_all
  from v have "coolantTemp (fst (ticks 24 cold_start)) = 619"
    and "egocorrection (status (fst (ticks 24 cold_start))) = 111"
    unfolding cranking_steps_24 by simp_all
  with r a cranking_closed_loop [OF c] show ?thesis by simp
qed

lemma cold_run_1:
  "reachable (fst cold_start) \<and>
   update (fst cold_start) (snd cold_start) = (True, ticks 1 cold_start) \<and>
   pulseWidth (fst (ticks 1 cold_start)) = 306"
proof -
  note cs = cold_start_facts
  from cs have c: "cranking (fst cold_start)" and o: "on_time (fst cold_start) (snd cold_start)"
    and r: "reachable (fst cold_start)"
    by simp_all
  from cranking_tick [OF c on_time_gate [OF o]] cs obtain s' e' where
    u: "update (fst cold_start) (snd cold_start) = (True, s', e')"
    and t: "coolantTemp s' = interpolate 200 800 5"
    and p: "pulseWidth s' = of_int ((uint (calculateRequiredPulseWidth 0 100 (calculateVE 0 2))
              * uint (getWarmupEnrichment (coolantTemp s'))) sdiv 100)"
    by auto
  have v: "pulseWidth s' = 306"
    unfolding p t by (rule cold_fuel_value)
  have e: "ticks 1 cold_start = (s', e')" using u by simp
  show ?thesis
    unfolding e using r u v by simp
qed

subsection \<open>A tick of the engine forced to idle from rest\<close>

lemma getRPM_status_cong:
  "rpmlo a = rpmlo b \<Longrightarrow> rpmhi a = rpmhi b \<Longrightarrow> getRPM a = getRPM b"
  by (simp add: getRPM_def)

lemma simulateThermal_rpm: "getRPM (status (simulateThermal s)) = getRPM (status s)"
  by (rule getRPM_status_cong)
     (simp_all add: simulateThermal_def Let_def setCoolantTemp_def setIntakeTemp_def)

lemma simulateThrottle_rpm: "getRPM (status (fst (simulateThrottle s e))) = getRPM (status s)"
  by (rule getRPM_status_cong) (simp_all add: simulateThrottle_def Let_def case_prod_beta)

lemma simulateMAP_rpm: "getRPM (status (fst (simulateMAP s e))) = getRPM (status s)"
  by (rule getRPM_status_cong) (simp_all add: simulateMAP_def Let_def case_prod_beta setMAP_def)

lemma simulateFuel_rpm: "getRPM (status (simulateFuel s)) = getRPM (status s)"
  by (rule getRPM_status_cong)
     (simp_all add: simulateFuel_def Let_def setPulseWidth_def if_distrib [of rpmlo]
        if_distrib [of rpmhi])

lemma simulateIgnition_rpm: "getRPM (status (simulateIgnition s)) = getRPM (status s)"
  by (rule getRPM_status_cong) (simp_all add: simulateIgnition_def Let_def)

lemma simulateAFR_rpm: "getRPM (status (fst (simulateAFR s e))) = getRPM (status s)"
  by (rule getRPM_status_cong) (simp_all add: simulateAFR_def Let_def case_prod_beta)

lemma simulateCorrections_rpm: "getRPM (status (fst (simulateCorrections s e))) = getRPM (status s)"
  by (rule getRPM_status_cong)
     (simp_all add: simulateCorrections_def Let_def case_prod_beta if_distrib [of rpmlo]
        if_distrib [of rpmhi] if_distrib [of status] if_distrib [of fst])

lemma simulateSensors_rpm: "getRPM (status (simulateSensors s)) = getRPM (status s)"
  by (rule getRPM_status_cong)
     (simp_all add: simulateSensors_def Let_def if_distrib [of rpmlo] if_distrib [of rpmhi])

lemma simulateVoltage_rpm: "getRPM (status (fst (simulateVoltage s e))) = getRPM (status s)"
  by (rule getRPM_status_cong) (simp_all add: simulateVoltage_def Let_def case_prod_beta)

lemma getRPM_after_simulateRPM:
  "getRPM (setRPMDot a (setRPM r st)) = r"
  by (simp add: getRPM_def setRPMDot_def setRPM_def le16_round_trip)

lemma updateStateMachine_idle_fresh:
  "currentMode s = IDLE \<Longrightarrow> \<not> uint (clock e (reads e) - stateStartTime s) > STATE_TRANSITION_MS \<Longrightarrow>
   updateStateMachine s e = (s, e\<lparr> reads := Suc (reads e) \<rparr>)"
  by (simp add: updateStateMachine_def millis_def Let_def)

lemma simulateRPM_idle_jitter:
  "currentMode s = IDLE \<Longrightarrow> currentRPM s = 0 \<Longrightarrow> targetRPM s = 650 \<Longrightarrow>
   rpmAcceleration s = 50 \<Longrightarrow> rng e = (\<lambda>k. 0) \<Longrightarrow>
   currentRPM (fst (simulateRPM s e)) = 65528"
  by (simp add: simulateRPM_def Let_def random_range_def RPM_MIN_def RPM_MAX_def
      UPDATE_INTERVAL_MS_def)

lemma forced_idle_facts:
  "currentMode (fst forced_idle) = IDLE \<and> currentRPM (fst forced_idle) = 0 \<and>
   targetRPM (fst forced_idle) = 650 \<and> rpmAcceleration (fst forced_idle) = 50 \<and>
   lastUpdateTime (fst forced_idle) = 0 \<and> stateStartTime (fst forced_idle) = 50 \<and>
   rng (snd forced_idle) = (\<lambda>k. 0) \<and> clock (snd forced_idle) = (\<lambda>k. of_nat (50 * k)) \<and>
   reads (snd forced_idle) = 2 \<and> reachable (fst forced_idle)"
proof -
  have "reachable (fst forced_idle)"
    unfolding forced_idle_def using cold_start_facts by (simp add: reachable_setMode)
  moreover have "currentMode (fst forced_idle) = IDLE \<and> currentRPM (fst forced_idle) = 0 \<and>
   targetRPM (fst forced_idle) = 650 \<and> rpmAcceleration (fst forced_idle) = 50 \<and>
   lastUpdateTime (fst forced_idle) = 0 \<and> stateStartTime (fst forced_idle) = 50 \<and>
   rng (snd forced_idle) = (\<lambda>k. 0) \<and> clock (snd forced_idle) = (\<lambda>k. of_nat (50 * k)) \<and>
   reads (snd forced_idle) = 2"
    by (simp add: forced_idle_def setMode_def transitionToMode_def random_range_def
        cold_start_def initialize_def millis_def Let_def constructed_def env_steady_def
        RPM_IDLE_MIN_def TPS_IDLE_def TEMP_AMBIENT_def)
  ultimately show ?thesis by simp
qed

lemma idle_tick_rpm:
  assumes c: "currentMode s = IDLE" "currentRPM s = 0" "targetRPM s = 650" "rpmAcceleration s = 50"
    and fresh: "\<not> uint (clock e (Suc (reads e)) - stateStartTime s) > STATE_TRANSITION_MS"
    and quiet: "rng e = (\<lambda>k. 0)"
    and gate: "\<not> uint (clock e (reads e) - lastUpdateTime s) < UPDATE_INTERVAL_MS"
  shows "\<exists>s' e'. update s e = (True, s', e') \<and> currentRPM s' = 65528 \<and>
           getRPM (status s') = 65528"
proof -
  from update_chain_full [OF gate] obtain s0 s1 e1 s2 e2 s4 e4 s5 e5 s8 e8 s9 e9 s11 e11 st d
    where p: "s0 = s\<lparr> lastUpdateTime := clock e (reads e), loopCounter := loopCounter s + 1,
                secondCounter := secondCounter s0,
                status := (status s)\<lparr> secl := secl (status s0) \<rparr> \<rparr>"
      and 1: "updateStateMachine s0 (e\<lparr> reads := Suc (reads e) \<rparr>) = (s1, e1)"
      and 2: "simulateRPM s1 e1 = (s2, e2)"
      and 4: "simulateThrottle (simulateThermal s2) e2 = (s4, e4)"
      and 5: "simulateMAP s4 e4 = (s5, e5)"
      and 8: "simulateAFR (simulateIgnition (simulateFuel s5)) e5 = (s8, e8)"
      and 9: "simulateCorrections s8 e8 = (s9, e9)"
      and 11: "simulateVoltage (simulateSensors s9) e9 = (s11, e11)"
      and U: "update s e = (True, (simulateCANData s11)\<lparr> status := st \<rparr>, e11\<lparr> draws := d \<rparr>)"
      and stq: "st = (status (simulateCANData s11))\<lparr> loopslo := loopslo st, loopshi := loopshi st,
               freeramlo := freeramlo st, freeramhi := freeramhi st, errors := errors st \<rparr>"
    by blast
  have m0: "currentMode s0 = IDLE \<and> currentRPM s0 = 0 \<and> rpmAcceleration s0 = 50 \<and>
            targetRPM s0 = 650 \<and> stateStartTime s0 = stateStartTime s"
    by (subst (1 2 3 4 5) p) (simp add: c)
  have q1: "s1 = s0 \<and> e1 = e\<lparr> reads := Suc (Suc (reads e)) \<rparr>"
    using updateStateMachine_idle_fresh [of s0 "e\<lparr> reads := Suc (reads e) \<rparr>"] m0 1 fresh
    by simp
  obtain r d2 where q2: "s2 = s0\<lparr> currentRPM := r,
        status := setRPMDot (rpmAcceleration s0) (setRPM r (status s0)) \<rparr>"
    using simulateRPM_shape [of s1 e1] 2 q1 by auto
  have "currentRPM (fst (simulateRPM s0 e1)) = 65528"
    using simulateRPM_idle_jitter [of s0 e1] m0 q1 quiet by simp
  then have r0: "r = 65528" using 2 q1 q2 by simp
  have g2: "getRPM (status s2) = 65528"
    by (simp add: q2 r0 getRPM_after_simulateRPM)
  define th where "th = simulateThermal s2"
  define f where "f = simulateFuel s5"
  define ig where "ig = simulateIgnition f"
  define sn where "sn = simulateSensors s9"
  define cd where "cd = simulateCANData s11"
  obtain tc st1 ti st2 where q3: "th = s2\<lparr> coolantTemp := tc, status := st1, intakeTemp := ti,
        status := st2 \<rparr>"
    unfolding th_def using simulateThermal_shape [of s2] by blast
  obtain st4 lt4 ct4 where q4: "s4 = th\<lparr> currentThrottle := ct4, status := st4, lastTPS := lt4 \<rparr>"
    using simulateThrottle_shape [of th e2] 4 [folded th_def] by auto
  obtain st5 where q5: "s5 = s4\<lparr> status := st5 \<rparr>"
    using simulateMAP_shape [of s4 e4] 5 by auto
  obtain fa fp1 fp2 fb fc where q6: "f = s5\<lparr> status := fa, pulseWidth := fp1, pulseWidth := fp2,
        status := fb, status := fc \<rparr>"
    unfolding f_def using simulateFuel_shape [of s5] by blast
  obtain st7 where q7: "ig = f\<lparr> status := st7 \<rparr>"
    unfolding ig_def using simulateIgnition_shape [of f] by blast
  obtain st8 where q8: "s8 = ig\<lparr> status := st8 \<rparr>"
    using simulateAFR_shape [of ig e5] 8 [folded f_def, folded ig_def] by auto
  obtain st9 t9 where q9: "s9 = s8\<lparr> status := st9, egoTrend := t9 \<rparr>"
    using simulateCorrections_shape [of s8 e8] 9 by auto
  obtain st10 where q10: "sn = s9\<lparr> status := st10 \<rparr>"
    unfolding sn_def using simulateSensors_shape [of s9] by blast
  obtain st11 where q11: "s11 = sn\<lparr> status := st11 \<rparr>"
    using simulateVoltage_shape [of sn e9] 11 [folded sn_def] by auto
  obtain cn where q12: "cd = s11\<lparr> status := (status s11)\<lparr> canin := cn \<rparr> \<rparr>"
    unfolding cd_def using simulateCANData_shape [of s11] by blast
  let ?s' = "cd\<lparr> status := st \<rparr>"
  note U' = U [folded cd_def]
  have cur: "currentRPM ?s' = 65528"
    by (simp add: q12 q11 q10 q9 q8 q7 q6 q5 q4 q3 q2 r0)
  have "getRPM (status th) = 65528"
    unfolding th_def using g2 by (simp add: simulateThermal_rpm)
  then have "getRPM (status (fst (simulateThrottle th e2))) = 65528"
    by (simp add: simulateThrottle_rpm)
  then have "getRPM (status s4) = 65528" using 4 [folded th_def] by simp
  then have "getRPM (status (fst (simulateMAP s4 e4))) = 65528"
    by (simp add: simulateMAP_rpm)
  then have "getRPM (status s5) = 65528" using 5 by simp
  then have "getRPM (status ig) = 65528"
    unfolding ig_def f_def by (simp add: simulateIgnition_rpm simulateFuel_rpm)
  then have "getRPM (status (fst (simulateAFR ig e5))) = 65528"
    by (simp add: simulateAFR_rpm)
  then have "getRPM (status s8) = 65528" using 8 [folded f_def, folded ig_def] by simp
  then have "getRPM (status (fst (simulateCorrections s8 e8))) = 65528"
    by (simp add: simulateCorrections_rpm)
  then have "getRPM (status s9) = 65528" using 9 by simp
  then have "getRPM (status sn) = 65528"
    unfolding sn_def by (simp add: simulateSensors_rpm)
  then have "getRPM (status (fst (simulateVoltage sn e9))) = 65528"
    by (simp add: simulateVoltage_rpm)
  then have "getRPM (status s11) = 65528" using 11 [folded sn_def] by simp
  then have gcd: "getRPM (status cd) = 65528"
    by (simp add: q12 getRPM_def)
  have "rpmlo st = rpmlo (status cd) \<and> rpmhi st = rpmhi (status cd)"
    by (subst (1 2) stq) (simp add: cd_def)
  then have "getRPM st = 65528"
    using gcd by (simp add: getRPM_def)
  then show ?thesis
    using U' cur by (intro exI [of _ ?s'] exI [of _ "e11\<lparr> draws := d \<rparr>"]) simp
qed

section \<open>The wire record accessors\<close>

text \<open>
  C5, as amended. Writing a 16-bit value with \<open>setRPM\<close>, \<open>setMAP\<close>, \<open>setPulseWidth\<close> or
  the signed \<open>setRPMDot\<close> and reading it back with the matching getter returns the value.
  The temperature accessors take and return a signed byte: the round trip holds for every
  value of that type, that is for every Celsius value from -128 to 127, and the byte
  stored is the value plus 40 modulo 256.
\<close>

theorem accessor_round_trip:
  "getRPM (setRPM x st) = x \<and> getMAP (setMAP x st) = x \<and>
   getPulseWidth (setPulseWidth x st) = x \<and> getRPMDot (setRPMDot r st) = r \<and>
   getCoolantTemp (setCoolantTemp c st) = c \<and> getIntakeTemp (setIntakeTemp c st) = c \<and>
   uint (clt (setCoolantTemp c st)) = (sint c + 40) mod 256 \<and>
   uint (iat (setIntakeTemp c st)) = (sint c + 40) mod 256"
proof -
  have "getRPM (setRPM x st) = x"
    by (simp add: getRPM_def setRPM_def le16_round_trip)
  moreover have "getMAP (setMAP x st) = x"
    by (simp add: getMAP_def setMAP_def le16_round_trip)
  moreover have "getRPMDot (setRPMDot r st) = r"
    by (simp add: getRPMDot_def setRPMDot_def le16_round_trip_signed)
  moreover have "getCoolantTemp (setCoolantTemp c st) = c"
    by (simp add: getCoolantTemp_def setCoolantTemp_def)
  moreover have "getIntakeTemp (setIntakeTemp c st) = c"
    by (simp add: getIntakeTemp_def setIntakeTemp_def)
  moreover have "uint (clt (setCoolantTemp c st)) = (sint c + 40) mod 256"
    unfolding setCoolantTemp_def using offset_byte [of c] by simp
  moreover have "uint (iat (setIntakeTemp c st)) = (sint c + 40) mod 256"
    unfolding setIntakeTemp_def using offset_byte [of c] by simp
  ultimately show ?thesis
    using getPulseWidth_setPulseWidth by blast
qed

text \<open>
  C5 as stated fails at 200 degrees Celsius, a value of the offset domain -40 to 215: the
  caller's 200 becomes the signed byte -56 at the call, the byte stored is 240, and the
  getter answers -56.
\<close>

theorem temperature_round_trip_counterexample:
  "uint (clt (setCoolantTemp (of_int 200) zero_status)) = 200 + 40 \<and>
   sint (getCoolantTemp (setCoolantTemp (of_int 200) zero_status)) = - 56 \<and>
   sint (getIntakeTemp (setIntakeTemp (of_int 200) zero_status)) = - 56"
  by (simp add: getCoolantTemp_def setCoolantTemp_def getIntakeTemp_def setIntakeTemp_def)

section \<open>The protocol handler\<close>

text \<open>
  C1. In every state the simulator reaches after \<open>initialize\<close>, a poll that reads the
  command byte \<open>A\<close> (0x41) counts the command and appends to the transport exactly 79 bytes:
  the fields of the wire record in the order of the layout, byte for byte. Offset 0 is the
  \<open>response\<close> field, which holds \<open>A\<close>; offsets 5-6, 15-16, 21-22 and 33-34 are the low and high
  bytes of MAP, RPM, pulse width and RPM rate; offsets 42-73 are the 32 auxiliary input bytes;
  offsets 74-78 are \<open>tpsadc\<close>, \<open>errors\<close> and the three reserved bytes.
\<close>

theorem realtime_data_response:
  assumes "reachable sim" and "rx t = 0x41 # bs"
  shows "processCommands p sim t =
           (True, p\<lparr> commandCount := commandCount p + 1 \<rparr>,
            t\<lparr> rx := bs, tx := tx t @
               [0x41, secl (status sim), status1 (status sim), engine (status sim),
                dwell (status sim), maplo (status sim), maphi (status sim), iat (status sim),
                clt (status sim), batcorrection (status sim), batteryv (status sim),
                o2 (status sim), egocorrection (status sim), iatcorrection (status sim),
                wue (status sim), rpmlo (status sim), rpmhi (status sim),
                taeamount (status sim), gammae (status sim), ve (status sim),
                afrtarget (status sim), pw1lo (status sim), pw1hi (status sim),
                tpsdot (status sim), advance (status sim), tps (status sim),
                loopslo (status sim), loopshi (status sim), freeramlo (status sim),
                freeramhi (status sim), boosttarget (status sim), boostduty (status sim),
                spark (status sim), rpmdotlo (status sim), rpmdothi (status sim),
                ethanolpct (status sim), flexcorrection (status sim),
                flexigncorrection (status sim), idleload (status sim),
                testoutputs (status sim), o2_2 (status sim), baro (status sim)] @
               canin (status sim) @
               [tpsadc (status sim), errors (status sim), unused1 (status sim),
                unused2 (status sim), unused3 (status sim)] \<rparr>) \<and>
         response (status sim) = 0x41 \<and>
         length (canin (status sim)) = 32 \<and>
         length (tx (snd (snd (processCommands p sim t)))) = length (tx t) + 79"
  using assms(2) reachable_wire [OF assms(1)]
  by (simp add: processCommands_def serial_available_def serial_read_def Let_def
      handleRealtimeData_def sendResponse_def serial_write_def serial_flush_def raw_bytes_def)

text \<open>
  Right after \<open>initialize\<close> the 79 bytes are \<open>A\<close>, MAP 100 at offset 5, both temperatures
  20 + 40 at offsets 7 and 8, battery 14 at offset 10, throttle 2 at offset 25, barometer 100
  at offset 41, and zero elsewhere.
\<close>

theorem realtime_data_response_witness:
  "reachable (fst (initialize constructed env_steady)) \<and>
   rx (transport_with [0x41]) = 0x41 # [] \<and>
   processCommands protocol_fresh (fst (initialize constructed env_steady)) (transport_with [0x41]) =
     (True, protocol_fresh\<lparr> commandCount := 1 \<rparr>,
      \<lparr> rx = [], tx =
        [0x41, 0x00, 0x00, 0x00, 0x00, 0x64, 0x00, 0x3C, 0x3C, 0x00, 0x0E, 0x00, 0x00, 0x00,
         0x00, 0x00, 0x00, 0x00, 0x00, 0x00, 0x00, 0x00, 0x00, 0x00, 0x00, 0x02, 0x00, 0x00,
         0x00, 0x00, 0x00, 0x00, 0x00, 0x00, 0x00, 0x00, 0x00, 0x00, 0x00, 0x00, 0x00, 0x64,
         0x00, 0x00, 0x00, 0x00, 0x00, 0x00, 0x00, 0x00, 0x00, 0x00, 0x00, 0x00, 0x00, 0x00,
         0x00, 0x00, 0x00, 0x00, 0x00, 0x00, 0x00, 0x00, 0x00, 0x00, 0x00, 0x00, 0x00, 0x00,
         0x00, 0x00, 0x00, 0x00, 0x00, 0x00, 0x00, 0x00, 0x00] \<rparr>) \<and>
   length (tx (snd (snd (processCommands protocol_fresh (fst (initialize constructed env_steady))
                           (transport_with [0x41]))))) = 79"
proof -
  have r: "reachable (fst (initialize constructed env_steady))"
    by (rule reachable_initialize)
  have x: "rx (transport_with [0x41]) = 0x41 # []"
    by (simp add: transport_with_def)
  have s: "status (fst (initialize constructed env_steady)) =
             zero_status\<lparr> response := 0x41, maplo := 100, iat := 60, clt := 60, batteryv := 14,
                           tps := 2, baro := 100 \<rparr>"
    by (simp add: initialize_def millis_def Let_def zero_status_def setRPM_def setMAP_def
        setCoolantTemp_def setIntakeTemp_def constructed_def env_steady_def config_defs)
  from realtime_data_response [OF r x, of protocol_fresh] r x show ?thesis
    unfolding s
    by (simp add: transport_with_def protocol_fresh_def zero_status_def numeral_eq_Suc)
qed

text \<open>
  C2. A poll that finds a byte on the transport reads that one byte, reports a processed
  command and adds 1 to the command counter, whatever the byte is. If the byte is none of
  \<open>A\<close>, \<open>Q\<close>, \<open>V\<close>, \<open>v\<close>, \<open>S\<close>, \<open>n\<close>, it also adds 1 to the error counter and writes the
  single byte 0xFF; otherwise the error counter stays. Both counters are \<open>uint32_t\<close>, so
  the additions are modulo \<open>2 ^ 32\<close>.
\<close>

theorem processCommands_counters:
  assumes "rx t = b # bs" and "processCommands p sim t = (r, p', t')"
  shows "r \<and> commandCount p' = commandCount p + 1 \<and> rx t' = bs \<and>
         (if b \<in> {0x41, 0x51, 0x56, 0x76, 0x53, 0x6E}
          then errorCount p' = errorCount p
          else errorCount p' = errorCount p + 1 \<and> tx t' = tx t @ [0xFF])"
  using assms
  by (auto simp add: processCommands_def serial_available_def serial_read_def Let_def
      handleRealtimeData_def handleStatusRequest_def handleVersionRequest_def
      handleSignatureRequest_def handlePageSizesRequest_def handleUnknownCommand_def
      sendResponse_def sendString_def serial_write_def serial_flush_def
      split: if_splits)

theorem processCommands_counters_witness:
  "rx (transport_with [0x5A, 0x51]) = 0x5A # [0x51] \<and>
   processCommands protocol_fresh constructed (transport_with [0x5A, 0x51]) =
     (True, protocol_fresh\<lparr> commandCount := 1, errorCount := 1 \<rparr>, \<lparr> rx = [0x51], tx = [0xFF] \<rparr>) \<and>
   commandCount (protocol_fresh\<lparr> commandCount := 1, errorCount := 1 \<rparr>) =
     commandCount protocol_fresh + 1 \<and>
   errorCount (protocol_fresh\<lparr> commandCount := 1, errorCount := 1 \<rparr>) =
     errorCount protocol_fresh + 1"
proof -
  have x: "rx (transport_with [0x5A, 0x51]) = 0x5A # [0x51]"
    by (simp add: transport_with_def)
  have y: "processCommands protocol_fresh constructed (transport_with [0x5A, 0x51]) =
     (True, protocol_fresh\<lparr> commandCount := 1, errorCount := 1 \<rparr>, \<lparr> rx = [0x51], tx = [0xFF] \<rparr>)"
    by (simp add: processCommands_def serial_available_def serial_read_def Let_def
        handleUnknownCommand_def sendResponse_def serial_write_def serial_flush_def
        transport_with_def protocol_fresh_def)
  from processCommands_counters [OF x y] x y show ?thesis
    by simp
qed

text \<open>
  C9. A poll that reads the command byte \<open>n\<close> (0x6E) writes exactly 7 bytes: the page
  count 2, then the sizes of the two pages, 32 and 256, each as two bytes with the low
  byte first, then the two zero bytes of the reserved third entry.
\<close>

theorem page_sizes_response:
  assumes "rx t = 0x6E # bs"
  shows "\<exists>resp. processCommands p sim t =
            (True, p\<lparr> commandCount := commandCount p + 1 \<rparr>, \<lparr> rx = bs, tx = tx t @ resp \<rparr>) \<and>
          length resp = 7 \<and> hd resp = 2 \<and>
          resp = 2 # little_endian16 32 @ little_endian16 256 @ [0, 0]"
  using assms
  by (simp add: processCommands_def serial_available_def serial_read_def Let_def
      handlePageSizesRequest_def sendResponse_def serial_write_def serial_flush_def
      little_endian16_def)

theorem page_sizes_response_witness:
  "rx (transport_with [0x6E]) = 0x6E # [] \<and>
   processCommands protocol_fresh constructed (transport_with [0x6E]) =
     (True, protocol_fresh\<lparr> commandCount := 1 \<rparr>, \<lparr> rx = [], tx = [2, 32, 0, 0, 1, 0, 0] \<rparr>)"
proof -
  have x: "rx (transport_with [0x6E]) = 0x6E # []"
    by (simp add: transport_with_def)
  from page_sizes_response [OF x, of protocol_fresh constructed] x show ?thesis
    by (auto simp add: transport_with_def protocol_fresh_def little_endian16_def)
qed

section \<open>The simulation engine\<close>

text \<open>
  C6. When the clock reading taken by \<open>update\<close> is less than the update interval (50 ms)
  after the last accepted tick, \<open>update\<close> answers false and returns the simulator state
  as it was, every field of it; the random source is not consulted and the clock has been
  read once.
\<close>

theorem update_time_gate:
  "uint (clock e (reads e) - lastUpdateTime s) < UPDATE_INTERVAL_MS \<Longrightarrow>
   update s e = (False, s, e\<lparr> reads := Suc (reads e) \<rparr>)"
  by (simp add: update_def millis_def)

theorem update_time_gate_witness:
  "uint (clock (snd (initialize constructed env_frozen)) (reads (snd (initialize constructed env_frozen)))
         - lastUpdateTime (fst (initialize constructed env_frozen))) < UPDATE_INTERVAL_MS \<and>
   update (fst (initialize constructed env_frozen)) (snd (initialize constructed env_frozen)) =
     (False, fst (initialize constructed env_frozen),
      (snd (initialize constructed env_frozen))\<lparr> reads := 2 \<rparr>)"
proof -
  have h: "uint (clock (snd (initialize constructed env_frozen))
                   (reads (snd (initialize constructed env_frozen)))
         - lastUpdateTime (fst (initialize constructed env_frozen))) < UPDATE_INTERVAL_MS"
    by (simp add: initialize_def millis_def env_frozen_def Let_def UPDATE_INTERVAL_MS_def)
  have k: "reads (snd (initialize constructed env_frozen)) = 1"
    by (simp add: initialize_def millis_def env_frozen_def Let_def)
  from update_time_gate [OF h] h k show ?thesis
    by simp
qed

text \<open>
  C8. \<open>setMode m\<close> is the very update the state machine performs when it moves to \<open>m\<close>:
  it is \<open>transitionToMode m\<close>, which sets the mode, reads the clock once and stores the
  reading as the start of the state, and derives the targets and the ramp rate of \<open>m\<close>
  from the draws of the random source that follow. One step of the state machine either
  leaves the state alone or is \<open>setMode m'\<close> for some mode \<open>m'\<close>, applied to the same
  state once the clock has been read and, in the modes that roll for their exit, one
  percentage has been drawn.
\<close>

theorem setMode_same_as_natural_transition:
  "setMode m s e = transitionToMode m s e \<and>
   currentMode (fst (setMode m s e)) = m \<and>
   stateStartTime (fst (setMode m s e)) = clock e (reads e) \<and>
   (\<exists>e'. (e' = snd (millis e) \<or> e' = snd (random_upto 100 (snd (millis e)))) \<and>
         (updateStateMachine s e = (s, e') \<or> (\<exists>m'. updateStateMachine s e = setMode m' s e')))"
proof -
  have c: "\<exists>e'. (e' = snd (millis e) \<or> e' = snd (random_upto 100 (snd (millis e)))) \<and>
         (updateStateMachine s e = (s, e') \<or> (\<exists>m'. updateStateMachine s e = setMode m' s e'))"
    by (cases "currentMode s")
       (auto simp add: updateStateMachine_def setMode_def Let_def split: prod.splits)
  show ?thesis using transitionToMode_frame [of m s e] c by (simp add: setMode_def)
qed

text \<open>
  C10. Right after \<open>initialize\<close>, the first accepted tick leaves the pulse-width field of
  the wire record at \<open>PW_MIN\<close> (10): \<open>initialize\<close> zeroes the EGO correction, the fuel
  stage runs before the corrections stage and multiplies by that zero, and the result is
  clamped up to \<open>PW_MIN\<close>. This holds whatever the state before \<open>initialize\<close> and
  whatever the clock and the random source answer.
\<close>

theorem first_tick_pulse_width:
  assumes "update (fst (initialize s0 e0)) e = (True, s', e')"
  shows "uint (getPulseWidth (status s')) = PW_MIN"
proof -
  from update_fuel [OF assms] obtain x where
    x: "pw1lo (status s') = pw1lo (status (simulateFuel x))"
       "pw1hi (status s') = pw1hi (status (simulateFuel x))"
       "egocorrection (status x) = egocorrection (status (fst (initialize s0 e0)))"
    by blast
  have "getPulseWidth (status s') = getPulseWidth (status (simulateFuel x))"
    by (simp add: getPulseWidth_def x)
  moreover have "egocorrection (status x) = 0"
    using initialize_facts [of s0 e0] x(3) by simp
  ultimately show ?thesis using simulateFuel_effect [of x] by simp
qed

theorem first_tick_pulse_width_witness:
  "update (fst (initialize constructed env_steady)) (snd cold_start) =
     (True, fst (snd (update (fst cold_start) (snd cold_start))),
            snd (snd (update (fst cold_start) (snd cold_start)))) \<and>
   uint (getPulseWidth (status (fst (snd (update (fst cold_start) (snd cold_start)))))) = 10"
proof -
  have h: "update (fst (initialize constructed env_steady)) (snd cold_start) =
     (True, fst (snd (update (fst cold_start) (snd cold_start))),
            snd (snd (update (fst cold_start) (snd cold_start))))"
    using cold_start_accepted by (simp add: cold_start_def)
  from first_tick_pulse_width [OF h] h show ?thesis by (simp add: PW_MIN_def)
qed

text \<open>
  C3, as amended. After every accepted tick, from any state, the pulse-width field of the
  wire record lies within \<open>[PW_MIN, PW_MAX]\<close> (10 to 255). The simulator's own
  \<open>pulseWidth\<close> variable holds the required pulse width after warm-up enrichment and
  before the corrections and the final clamp: it lies within 10 and 357, that is
  \<open>PW_MAX\<close> scaled by the largest enrichment of 140 percent.
\<close>

theorem pulse_width_range:
  assumes "update s e = (True, s', e')"
  shows "PW_MIN \<le> uint (getPulseWidth (status s')) \<and> uint (getPulseWidth (status s')) \<le> PW_MAX \<and>
         PW_MIN \<le> uint (pulseWidth s') \<and> uint (pulseWidth s') \<le> 357"
proof -
  from update_fuel [OF assms] obtain x where
    x: "pulseWidth s' = pulseWidth (simulateFuel x)"
       "pw1lo (status s') = pw1lo (status (simulateFuel x))"
       "pw1hi (status s') = pw1hi (status (simulateFuel x))"
    by blast
  have "getPulseWidth (status s') = getPulseWidth (status (simulateFuel x))"
    by (simp add: getPulseWidth_def x)
  then show ?thesis using simulateFuel_effect [of x] x(1) by simp
qed

theorem pulse_width_range_witness:
  "update (fst cold_start) (snd cold_start) =
     (True, fst (snd (update (fst cold_start) (snd cold_start))),
            snd (snd (update (fst cold_start) (snd cold_start)))) \<and>
   PW_MIN \<le> uint (getPulseWidth (status (fst (snd (update (fst cold_start) (snd cold_start)))))) \<and>
   uint (getPulseWidth (status (fst (snd (update (fst cold_start) (snd cold_start)))))) \<le> PW_MAX \<and>
   PW_MIN \<le> uint (pulseWidth (fst (snd (update (fst cold_start) (snd cold_start))))) \<and>
   uint (pulseWidth (fst (snd (update (fst cold_start) (snd cold_start))))) \<le> 357"
proof -
  have h: "update (fst cold_start) (snd cold_start) =
     (True, fst (snd (update (fst cold_start) (snd cold_start))),
            snd (snd (update (fst cold_start) (snd cold_start))))"
    using cold_start_accepted by simp
  from pulse_width_range [OF h] h show ?thesis by simp
qed

text \<open>
  C3 as stated fails for the state variable: on the first tick after \<open>initialize\<close>, with
  the random source answering the lower end of each range, the manifold pressure is
  100 kPa at 0 RPM, the required pulse width is clamped to 255 and the enrichment of 120
  percent makes the variable 306.
\<close>

theorem pulse_width_state_counterexample:
  "reachable (fst cold_start) \<and>
   update (fst cold_start) (snd cold_start) = (True, ticks 1 cold_start) \<and>
   uint (pulseWidth (fst (ticks 1 cold_start))) = 306 \<and>
   \<not> uint (pulseWidth (fst (ticks 1 cold_start))) \<le> PW_MAX"
  using cold_run_1 by (simp add: PW_MAX_def)

text \<open>
  C7, as amended. After every accepted tick of a reachable state: if the coolant is above
  50.0 degrees and the mode is not wide-open throttle, the EGO correction lies within 89
  and 111 percent; otherwise it is exactly 100 percent. The trend is reversed only once the
  value has passed 110 or fallen below 90, so the value overshoots each threshold by one.
\<close>

theorem ego_correction_range:
  assumes "reachable s" and "update s e = (True, s', e')"
  shows "if closed_loop s'
         then 89 \<le> uint (egocorrection (status s')) \<and> uint (egocorrection (status s')) \<le> 111
         else uint (egocorrection (status s')) = 100"
  using update_ego [OF reachable_ego_inv [OF assms(1)] assms(2)] by simp

theorem ego_correction_range_witness:
  "reachable (fst (ticks 23 cold_start)) \<and>
   update (fst (ticks 23 cold_start)) (snd (ticks 23 cold_start)) =
     (True, fst (ticks 24 cold_start), snd (ticks 24 cold_start)) \<and>
   closed_loop (fst (ticks 24 cold_start)) \<and>
   89 \<le> uint (egocorrection (status (fst (ticks 24 cold_start)))) \<and>
   uint (egocorrection (status (fst (ticks 24 cold_start)))) \<le> 111"
proof -
  from cold_run_24 have r: "reachable (fst (ticks 23 cold_start))"
    and a: "update (fst (ticks 23 cold_start)) (snd (ticks 23 cold_start)) =
              (True, fst (ticks 24 cold_start), snd (ticks 24 cold_start))"
    and c: "closed_loop (fst (ticks 24 cold_start))"
    by simp_all
  from ego_correction_range [OF r a] r a c show ?thesis by simp
qed

text \<open>
  C7 as stated fails on the cold engine: the coolant passes 50.0 degrees on the 14th tick,
  the correction then climbs by one per tick from 100, and the 24th tick leaves it at 111,
  above the claimed 110.
\<close>

theorem ego_correction_counterexample:
  "reachable (fst (ticks 23 cold_start)) \<and>
   update (fst (ticks 23 cold_start)) (snd (ticks 23 cold_start)) = (True, ticks 24 cold_start) \<and>
   closed_loop (fst (ticks 24 cold_start)) \<and>
   uint (egocorrection (status (fst (ticks 24 cold_start)))) = 111 \<and>
   \<not> uint (egocorrection (status (fst (ticks 24 cold_start)))) \<le> 110"
  using cold_run_24 by simp

subsection \<open>C4: RPM range\<close>

text \<open>
  C4 says that after every accepted tick the RPM of the wire record is within
  \<open>[0, RPM_MAX]\<close>. \<open>simulateRPM\<close> clamps \<open>currentRPM\<close> to \<open>[RPM_MIN, RPM_MAX]\<close> and only then,
  in \<open>IDLE\<close>, adds the jitter \<open>random(-10, 10)\<close> to the unsigned 16-bit value. On the engine
  forced to idle from rest the ramp gives 2 RPM, the jitter draw is -10, and the accepted tick
  leaves 65528 both in \<open>currentRPM\<close> and in the RPM field of the wire record, above \<open>RPM_MAX\<close>.
\<close>

theorem rpm_jitter_wraps:
  "fst (update (fst forced_idle) (snd forced_idle)) \<and>
   uint (currentRPM (fst (snd (update (fst forced_idle) (snd forced_idle))))) = 65528 \<and>
   uint (getRPM (status (fst (snd (update (fst forced_idle) (snd forced_idle)))))) = 65528 \<and>
   RPM_MAX < 65528"
proof -
  note f = forced_idle_facts
  have fresh: "\<not> uint (clock (snd forced_idle) (Suc (reads (snd forced_idle)))
                  - stateStartTime (fst forced_idle)) > STATE_TRANSITION_MS"
    using f by (simp add: STATE_TRANSITION_MS_def)
  have gate: "\<not> uint (clock (snd forced_idle) (reads (snd forced_idle))
                  - lastUpdateTime (fst forced_idle)) < UPDATE_INTERVAL_MS"
    using f by (simp add: UPDATE_INTERVAL_MS_def)
  from idle_tick_rpm [OF _ _ _ _ fresh _ gate] f
  obtain s' e' where "update (fst forced_idle) (snd forced_idle) = (True, s', e')"
    "currentRPM s' = 65528" "getRPM (status s') = 65528"
    by blast
  then show ?thesis by (simp add: RPM_MAX_def)
qed

end
